theory Spec2Isabelle
  imports Main "HOL-Library.Sublist"
begin

section \<open>Python values, exceptions and the observable effects of the handler\<close>

text \<open>
  The handler of \<^verbatim>\<open>main.py\<close> manipulates nested dictionaries (the decoded event payload,
  the FalconDeployment manifest, API list responses). A dictionary is an association list:
  Python dictionaries keep insertion order, and \<^verbatim>\<open>d[k] = v\<close> overwrites in place or appends.
\<close>

datatype pyval =
    PNone
  | PBool bool
  | PInt int
  | PStr string
  | PList "pyval list"
  | PDict "(string \<times> pyval) list"

datatype exn =
    ApiException "int option"
  | IndexError
  | KeyError string
  | TypeError
  | AttributeError
  | UnboundLocalError
  | OtherError string

type_synonym dict = "(string \<times> pyval) list"

text \<open>\<^verbatim>\<open>d[k] = v\<close> on a dictionary.\<close>

fun dict_set :: "dict \<Rightarrow> string \<Rightarrow> pyval \<Rightarrow> dict" where
  "dict_set [] k v = [(k, v)]"
| "dict_set ((k', v') # d) k v = (if k' = k then (k, v) # d else (k', v') # dict_set d k v)"

text \<open>\<^verbatim>\<open>d.update(other)\<close>: the entries of \<open>other\<close> are assigned in their order.\<close>

fun dict_update :: "dict \<Rightarrow> dict \<Rightarrow> dict" where
  "dict_update d [] = d"
| "dict_update d ((k, v) # other) = dict_update (dict_set d k v) other"

text \<open>\<^verbatim>\<open>v[k]\<close> with a string key: KeyError on a missing key, TypeError on a value that is
  not a dictionary.\<close>

fun getitem :: "pyval \<Rightarrow> string \<Rightarrow> exn + pyval" where
  "getitem (PDict d) k = (case map_of d k of None \<Rightarrow> Inl (KeyError k) | Some v \<Rightarrow> Inr v)"
| "getitem _ k = Inl TypeError"

text \<open>\<^verbatim>\<open>v[k1]...[kn][k] = x\<close>: the keys \<open>k1 ... kn\<close> are read, the last one is assigned.
  The functional result is the updated outer value.\<close>

fun setitem :: "string list \<Rightarrow> string \<Rightarrow> pyval \<Rightarrow> pyval \<Rightarrow> exn + pyval" where
  "setitem [] k x (PDict d) = Inr (PDict (dict_set d k x))"
| "setitem (k1 # ks) k x (PDict d) =
     (case map_of d k1 of
        None \<Rightarrow> Inl (KeyError k1)
      | Some sub \<Rightarrow>
          (case setitem ks k x sub of
             Inl e \<Rightarrow> Inl e
           | Inr sub' \<Rightarrow> Inr (PDict (dict_set d k1 sub'))))"
| "setitem _ k x _ = Inl TypeError"

text \<open>\<^verbatim>\<open>k in v\<close> for a string \<open>k\<close>: key membership in a dictionary, element membership in a
  list, substring test on a string, TypeError otherwise.\<close>

fun py_in :: "string \<Rightarrow> pyval \<Rightarrow> exn + bool" where
  "py_in k (PDict d) = Inr (k \<in> fst ` set d)"
| "py_in k (PList xs) = Inr (PStr k \<in> set xs)"
| "py_in k (PStr s) = Inr (sublist k s)"
| "py_in k _ = Inl TypeError"

text \<open>\<^verbatim>\<open>len(v)\<close>.\<close>

fun py_len :: "pyval \<Rightarrow> exn + nat" where
  "py_len (PList xs) = Inr (length xs)"
| "py_len (PDict d) = Inr (length d)"
| "py_len (PStr s) = Inr (length s)"
| "py_len _ = Inl TypeError"

text \<open>\<^verbatim>\<open>s.split(sep)\<close> for a one-character separator: one more segment than separators.
  A character that is not the separator goes to the front of the first segment of the
  rest (the split of the rest is never empty, so the last case does not arise).\<close>

fun str_split :: "char \<Rightarrow> string \<Rightarrow> string list" where
  "str_split sep [] = [[]]"
| "str_split sep (c # cs) =
     (if c = sep then [] # str_split sep cs
      else (case str_split sep cs of
              w # ws \<Rightarrow> (c # w) # ws
            | [] \<Rightarrow> [[c]]))"

text \<open>\<^verbatim>\<open>xs[i]\<close> with a non-negative index: IndexError out of range.\<close>

definition list_index :: "'a list \<Rightarrow> nat \<Rightarrow> exn + 'a" where
  "list_index xs i = (if i < length xs then Inr (xs ! i) else Inl IndexError)"

section \<open>The environment: cluster API, Kubernetes API, files, network\<close>

record cluster =
  status_name :: string
  autopilot_enabled :: bool

datatype pod = Pod (phase: string)

type_synonym api_client = nat

text \<open>Every call the handler makes outside itself, with its arguments.\<close>

datatype call =
    GetCluster string string string
  | Sleep nat
  | UrlRetrieve string string
  | ReadFile string
  | WriteFile string string
  | GetKubeClients cluster
  | ReadNamespace api_client string
  | ListNamespacedPod api_client string
  | CreateFromYaml api_client string
  | NewDynamicClient api_client
  | ListClusterCustomObject api_client string string string
  | ResourcesGet api_client string string
  | CreateResource api_client pyval string

datatype level = DEBUG | INFO | WARNING | ERROR

datatype log_entry = Log level string | LogExn level string exn

text \<open>
  The state of a run is what it has done so far: the external calls, in order, and the
  logging calls, in order. \<open>GetCluster\<close> carries \<open>cluster_name\<close>, \<open>zone\<close>, \<open>project_id\<close>.
\<close>

record state =
  calls :: "call list"
  logs :: "log_entry list"

text \<open>
  The environment answers each external call, given all calls made so far (the current
  one last): it returns a value or raises. \<open>get_cluster\<close> and \<open>get_kube_clients\<close> are the
  helpers the handler imports from \<^verbatim>\<open>utils\<close>; the others are the library calls of
  \<^verbatim>\<open>urllib\<close>, the file system and the Kubernetes client. Constructing
  \<^verbatim>\<open>dynamic.DynamicClient(api_client)\<close> runs API discovery against the cluster and is
  a call of its own, \<open>NewDynamicClient\<close>; constructing \<^verbatim>\<open>CoreV1Api\<close> and
  \<^verbatim>\<open>CustomObjectsApi\<close> only wraps the client and sends nothing.
\<close>

record env =
  get_cluster :: "call list \<Rightarrow> exn + cluster"
  get_kube_clients :: "call list \<Rightarrow> exn + api_client"
  urlretrieve :: "call list \<Rightarrow> exn + unit"
  read_file :: "call list \<Rightarrow> exn + string"
  write_file :: "call list \<Rightarrow> exn + unit"
  read_namespace :: "call list \<Rightarrow> exn + unit"
  list_namespaced_pod :: "call list \<Rightarrow> exn + pod list"
  create_from_yaml :: "call list \<Rightarrow> exn + unit"
  new_dynamic_client :: "call list \<Rightarrow> exn + unit"
  list_cluster_custom_object :: "call list \<Rightarrow> exn + pyval"
  resources_get :: "call list \<Rightarrow> exn + unit"
  create :: "call list \<Rightarrow> exn + unit"

text \<open>
  A function of the handler returns a value, raises, or (only below the unbounded
  pod-readiness loop) has not finished when the fuel is used up.
\<close>

datatype 'a res = Return 'a | Raise exn | OutOfFuel

type_synonym 'a run = "state \<Rightarrow> 'a res \<times> state"

definition bind :: "'a run \<Rightarrow> ('a \<Rightarrow> 'b run) \<Rightarrow> 'b run" where
  "bind m f s =
     (case m s of
        (Return a, s') \<Rightarrow> f a s'
      | (Raise e, s') \<Rightarrow> (Raise e, s')
      | (OutOfFuel, s') \<Rightarrow> (OutOfFuel, s'))"

definition ret :: "'a \<Rightarrow> 'a run" where
  "ret a s = (Return a, s)"

definition raise :: "exn \<Rightarrow> 'a run" where
  "raise e s = (Raise e, s)"

text \<open>A pure computation that may raise.\<close>

definition lift :: "exn + 'a \<Rightarrow> 'a run" where
  "lift r s = (case r of Inl e \<Rightarrow> (Raise e, s) | Inr a \<Rightarrow> (Return a, s))"

text \<open>\<^verbatim>\<open>try: m except Exception as e: h(e)\<close>.\<close>

definition try_except :: "'a run \<Rightarrow> (exn \<Rightarrow> 'a run) \<Rightarrow> 'a run" where
  "try_except m h s =
     (case m s of
        (Raise e, s') \<Rightarrow> h e s'
      | r \<Rightarrow> r)"

definition do_call :: "(call list \<Rightarrow> exn + 'a) \<Rightarrow> call \<Rightarrow> 'a run" where
  "do_call answer c s =
     (case answer (calls s @ [c]) of Inl e \<Rightarrow> Raise e | Inr a \<Rightarrow> Return a,
      s\<lparr>calls := calls s @ [c]\<rparr>)"

definition sleep :: "nat \<Rightarrow> unit run" where
  "sleep n s = (Return (), s\<lparr>calls := calls s @ [Sleep n]\<rparr>)"

definition logging :: "level \<Rightarrow> string \<Rightarrow> unit run" where
  "logging l msg s = (Return (), s\<lparr>logs := logs s @ [Log l msg]\<rparr>)"

definition logging_exn :: "level \<Rightarrow> string \<Rightarrow> exn \<Rightarrow> unit run" where
  "logging_exn l msg e s = (Return (), s\<lparr>logs := logs s @ [LogExn l msg e]\<rparr>)"

section \<open>Module-level configuration\<close>

text \<open>The values read from the process environment when the module is imported.\<close>

record config =
  FALCON_CLIENT_ID :: string
  FALCON_CLIENT_SECRET :: string
  FALCON_AUTO_UPDATE :: string
  FALCON_UPDATE_POLICY :: string
  FALCON_SENSOR_VERSION :: string
  FALCON_SENSOR_TAGS :: string

definition MAX_CLUSTER_STATUS_CHECK_COUNT :: nat where
  "MAX_CLUSTER_STATUS_CHECK_COUNT = 20"

definition POD_READY_STATE_SECONDS_TO_SLEEP :: nat where
  "POD_READY_STATE_SECONDS_TO_SLEEP = 10"

definition FALCON_OPERATOR_URL :: string where
  "FALCON_OPERATOR_URL =
     ''https://github.com/crowdstrike/falcon-operator/releases/latest/download/falcon-operator.yaml''"

section \<open>\<^verbatim>\<open>configure_falcon_deployment_manifest\<close>\<close>

definition manifest_literal :: "config \<Rightarrow> pyval" where
  "manifest_literal cfg =
     PDict
       [(''apiVersion'', PStr ''falcon.crowdstrike.com/v1alpha1''),
        (''kind'', PStr ''FalconDeployment''),
        (''metadata'', PDict [(''name'', PStr ''falcon-deployment'')]),
        (''spec'',
         PDict
           [(''falcon_api'',
             PDict
               [(''client_id'', PStr (FALCON_CLIENT_ID cfg)),
                (''client_secret'', PStr (FALCON_CLIENT_SECRET cfg)),
                (''cloud_region'', PStr ''us-2'')]),
            (''deployAdmissionController'', PBool True),
            (''deployNodeSensor'', PBool True),
            (''deployImageAnalyzer'', PBool False),
            (''deployContainerSensor'', PBool False)])]"

definition autopilot_config :: pyval where
  "autopilot_config =
     PDict
       [(''backend'', PStr ''bpf''),
        (''gke'', PDict [(''autopilot'', PBool True)]),
        (''resources'',
         PDict [(''requests'', PDict [(''cpu'', PStr ''750m''), (''memory'', PStr ''1.5Gi'')])]),
        (''tolerations'',
         PList
           [PDict
              [(''effect'', PStr ''NoSchedule''),
               (''operator'', PStr ''Equal''),
               (''key'', PStr ''kubernetes.io/arch''),
               (''value'', PStr ''amd64'')]])]"

text \<open>\<^verbatim>\<open>d.update(other)\<close> on values.\<close>

fun py_update :: "pyval \<Rightarrow> pyval \<Rightarrow> exn + pyval" where
  "py_update (PDict d) (PDict other) = Inr (PDict (dict_update d other))"
| "py_update (PDict d) _ = Inl TypeError"
| "py_update _ _ = Inl AttributeError"

text \<open>
  \<open>yaml_dump\<close> is \<^verbatim>\<open>yaml.dump\<close> of the YAML library, a function of the value it is given.
  Opening \<^verbatim>\<open>node_sensor_manifest.yaml\<close> for writing and writing the text is one call
  \<open>WriteFile\<close>.
\<close>

definition configure_falcon_deployment_manifest ::
  "(pyval \<Rightarrow> string) \<Rightarrow> config \<Rightarrow> env \<Rightarrow> bool \<Rightarrow> pyval run" where
  "configure_falcon_deployment_manifest yaml_dump cfg ev is_autopilot =
     (let manifest = manifest_literal cfg;
          node_config = PDict []
      in
      bind (if FALCON_AUTO_UPDATE cfg \<noteq> ''off'' \<or> FALCON_UPDATE_POLICY cfg \<noteq> []
            then
              bind (lift (setitem [] ''advanced'' (PDict []) node_config)) (\<lambda>node_config.
              bind (if FALCON_AUTO_UPDATE cfg \<noteq> ''off''
                    then
                      bind (lift (setitem [''advanced''] ''autoUpdate''
                                    (PStr (FALCON_AUTO_UPDATE cfg)) node_config)) (\<lambda>node_config.
                      bind (logging INFO
                              (''Auto-update enabled with mode: '' @ FALCON_AUTO_UPDATE cfg)) (\<lambda>_.
                      ret node_config))
                    else ret node_config) (\<lambda>node_config.
              if FALCON_UPDATE_POLICY cfg \<noteq> []
              then
                bind (lift (setitem [''advanced''] ''updatePolicy''
                              (PStr (FALCON_UPDATE_POLICY cfg)) node_config)) (\<lambda>node_config.
                bind (logging INFO
                        (''Using update policy: '' @ FALCON_UPDATE_POLICY cfg)) (\<lambda>_.
                ret node_config))
              else ret node_config))
            else ret node_config) (\<lambda>node_config.
      bind (if FALCON_SENSOR_VERSION cfg \<noteq> []
            then
              bind (lift (setitem [] ''version''
                            (PStr (FALCON_SENSOR_VERSION cfg)) node_config)) (\<lambda>node_config.
              bind (logging INFO
                      (''Pinning sensor version to: '' @ FALCON_SENSOR_VERSION cfg)) (\<lambda>_.
              ret node_config))
            else ret node_config) (\<lambda>node_config.
      bind (if is_autopilot then lift (py_update node_config autopilot_config)
            else ret node_config) (\<lambda>node_config.
      bind (if FALCON_SENSOR_TAGS cfg \<noteq> []
            then
              bind (lift (getitem manifest ''spec'')) (\<lambda>spec.
              bind (lift (py_in ''falcon'' spec)) (\<lambda>present.
              bind (if \<not> present then lift (setitem [''spec''] ''falcon'' (PDict []) manifest)
                    else ret manifest) (\<lambda>manifest.
              bind (lift (setitem [''spec'', ''falcon''] ''tags''
                            (PStr (FALCON_SENSOR_TAGS cfg)) manifest)) (\<lambda>manifest.
              bind (logging INFO (''Adding sensor tags: '' @ FALCON_SENSOR_TAGS cfg)) (\<lambda>_.
              ret manifest)))))
            else ret manifest) (\<lambda>manifest.
      bind (lift (setitem [''spec''] ''falconNodeSensor''
                    (PDict [(''node'', node_config)]) manifest)) (\<lambda>manifest.
      let manifest_yaml = yaml_dump manifest in
      bind (do_call (write_file ev)
              (WriteFile ''node_sensor_manifest.yaml'' manifest_yaml)) (\<lambda>_.
      bind (logging DEBUG (''Generated manifest:'' @ [CHR 0x0A] @ manifest_yaml)) (\<lambda>_.
      ret manifest))))))))"

section \<open>The operator: existence check, pod readiness, deployment\<close>

definition check_resources_deployed :: "env \<Rightarrow> api_client \<Rightarrow> string \<Rightarrow> bool run" where
  "check_resources_deployed ev api_client namespace_name =
     bind (logging DEBUG (''Checking for namespace: '' @ namespace_name @ ''.'')) (\<lambda>_.
     bind (try_except
             (bind (do_call (read_namespace ev) (ReadNamespace api_client namespace_name)) (\<lambda>_.
              bind (logging DEBUG (''Namespace '' @ namespace_name @ '' exists.'')) (\<lambda>_.
              ret None)))
             (\<lambda>e. case e of
                    ApiException status \<Rightarrow> if status = Some 404 then ret (Some False) else raise e
                  | _ \<Rightarrow> raise e)) (\<lambda>returned.
     case returned of
       Some b \<Rightarrow> ret b
     | None \<Rightarrow>
         try_except
           (bind (do_call (list_namespaced_pod ev)
                    (ListNamespacedPod api_client namespace_name)) (\<lambda>pod_list.
            if length pod_list > 0 then ret True else ret False))
           (\<lambda>e. bind (logging_exn ERROR [] e) (\<lambda>_. raise e))))"

text \<open>The \<^verbatim>\<open>for\<close> loop of \<^verbatim>\<open>check_pods_are_ready\<close>, started with \<open>pods_ready = False\<close>.\<close>

fun pods_ready_for :: "bool \<Rightarrow> pod list \<Rightarrow> bool" where
  "pods_ready_for pods_ready [] = pods_ready"
| "pods_ready_for pods_ready (p # ps) =
     (if phase p = ''Running'' then True else pods_ready_for pods_ready ps)"

definition check_pods_are_ready :: "env \<Rightarrow> api_client \<Rightarrow> string \<Rightarrow> bool run" where
  "check_pods_are_ready ev api_client namespace_name =
     bind (do_call (list_namespaced_pod ev)
             (ListNamespacedPod api_client namespace_name)) (\<lambda>pod_list.
     ret (pods_ready_for False pod_list))"

definition download_operator_manifest :: "env \<Rightarrow> string run" where
  "download_operator_manifest ev =
     bind (do_call (urlretrieve ev) (UrlRetrieve FALCON_OPERATOR_URL ''falcon_operator.yaml'')) (\<lambda>_.
     do_call (read_file ev) (ReadFile ''falcon_operator.yaml''))"

text \<open>
  The \<^verbatim>\<open>while not pods_ready\<close> loop of \<^verbatim>\<open>deploy_operator\<close> has no bound in the source;
  here each iteration uses one unit of fuel.
\<close>

fun pods_ready_while :: "env \<Rightarrow> api_client \<Rightarrow> nat \<Rightarrow> bool \<Rightarrow> bool run" where
  "pods_ready_while ev api_client fuel True s = (Return True, s)"
| "pods_ready_while ev api_client 0 False s = (OutOfFuel, s)"
| "pods_ready_while ev api_client (Suc fuel) False s =
     (case bind (logging INFO ''Pods are not yet ready. Sleeping for 10 seconds'') (\<lambda>_.
           bind (sleep POD_READY_STATE_SECONDS_TO_SLEEP) (\<lambda>_.
           check_pods_are_ready ev api_client ''falcon-operator'')) s of
        (Return pods_ready, s') \<Rightarrow> pods_ready_while ev api_client fuel pods_ready s'
      | (Raise e, s') \<Rightarrow> (Raise e, s')
      | (OutOfFuel, s') \<Rightarrow> (OutOfFuel, s'))"

definition deploy_operator :: "env \<Rightarrow> api_client \<Rightarrow> nat \<Rightarrow> unit run" where
  "deploy_operator ev api_client fuel =
     bind (check_resources_deployed ev api_client ''falcon-operator'') (\<lambda>deployed.
     bind (if deployed then logging INFO ''Pod resources exist... Skipping deployment''
           else
             try_except
               (bind (logging INFO ''Deploying Falcon operator'') (\<lambda>_.
                do_call (create_from_yaml ev) (CreateFromYaml api_client ''falcon_operator.yaml'')))
               (\<lambda>e. bind (logging_exn ERROR [] e) (\<lambda>_. raise e))) (\<lambda>_.
     bind (logging INFO ''Checking to see if pods in falcon-operator are ready.'') (\<lambda>_.
     bind (check_pods_are_ready ev api_client ''falcon-operator'') (\<lambda>pods_ready.
     bind (pods_ready_while ev api_client fuel pods_ready) (\<lambda>pods_ready.
     if pods_ready then logging INFO ''Pods are in ready state. Proceeding with deployment.''
     else ret ())))))"

section \<open>The FalconDeployment custom resource\<close>

definition list_falcon_deployments :: "env \<Rightarrow> api_client \<Rightarrow> pyval run" where
  "list_falcon_deployments ev api_client =
     bind (logging INFO ''Checking to see if there are existing Falcon deployments'') (\<lambda>_.
     try_except
       (bind (do_call (list_cluster_custom_object ev)
                (ListClusterCustomObject api_client
                   ''falcon.crowdstrike.com'' ''v1alpha1'' ''falcondeployments'')) (\<lambda>falcon_deployments.
        lift (getitem falcon_deployments ''items'')))
       (\<lambda>e. case e of
              ApiException status \<Rightarrow> if status = Some 404 then ret (PList []) else raise e
            | _ \<Rightarrow> raise e))"

definition deploy_falcon_manifest :: "env \<Rightarrow> api_client \<Rightarrow> pyval \<Rightarrow> unit run" where
  "deploy_falcon_manifest ev api_client manifest_json =
     bind (do_call (new_dynamic_client ev) (NewDynamicClient api_client)) (\<lambda>dynamic_client.
     bind (list_falcon_deployments ev api_client) (\<lambda>deployments.
     bind (lift (py_len deployments)) (\<lambda>n.
     if n = 0
     then
       bind (logging INFO ''There are no existing Falcon deployments'') (\<lambda>_.
       bind (logging INFO ''Deploying Falcon'') (\<lambda>_.
       try_except
         (bind (do_call (resources_get ev)
                  (ResourcesGet api_client
                     ''falcon.crowdstrike.com/v1alpha1'' ''FalconDeployment'')) (\<lambda>falcon_deployment.
          do_call (create ev) (CreateResource api_client manifest_json ''falcon-operator'')))
         (\<lambda>e. bind (logging_exn ERROR [] e) (\<lambda>_. raise e))))
     else
       bind (logging INFO ''There are existing Falcon deployments. Exiting...'') (\<lambda>_.
       ret ()))))"

section \<open>The handler \<^verbatim>\<open>main\<close>\<close>

text \<open>
  The readiness loop of \<^verbatim>\<open>main\<close> leaves either by falling through its condition, with
  the variable \<open>cluster\<close> as last assigned, or by the \<^verbatim>\<open>return\<close> inside its body.
\<close>

datatype loop_exit = Fallthrough "cluster option" | EarlyReturn

definition logged :: "level \<Rightarrow> string \<Rightarrow> state \<Rightarrow> state" where
  "logged l msg s = snd (logging l msg s)"

definition slept :: "nat \<Rightarrow> state \<Rightarrow> state" where
  "slept n s = snd (sleep n s)"

function main_while ::
  "env \<Rightarrow> string \<Rightarrow> string \<Rightarrow> string \<Rightarrow> string \<Rightarrow> nat \<Rightarrow> cluster option \<Rightarrow> loop_exit run" where
  "main_while ev cluster_name zone project_id cluster_status cluster_status_check_counter cluster s =
     (if cluster_status \<noteq> ''RUNNING''
         \<and> cluster_status_check_counter \<le> MAX_CLUSTER_STATUS_CHECK_COUNT
      then
        (case do_call (get_cluster ev) (GetCluster cluster_name zone project_id) s of
           (Return c, s1) \<Rightarrow>
             (let cluster_status = status_name c;
                  s2 = logged DEBUG (''Cluster status: '' @ cluster_status @ '' '') s1
              in
              if cluster_status \<in> set [''STOPPING'', ''ERROR'', ''DEGRADED'', ''STATUS_UNSPECIFIED'']
              then
                (Return EarlyReturn,
                 logged WARNING
                   (''Cluster in unmanageable state: '' @ cluster_status @ ''... Exiting'') s2)
              else if cluster_status \<in> set [''PROVISIONING'']
              then
                main_while ev cluster_name zone project_id cluster_status
                  (cluster_status_check_counter + 1) (Some c)
                  (slept 60 (logged INFO ''Cluster in provisioning state... Sleeping.'' s2))
              else if cluster_status \<in> set [''RUNNING'']
              then
                main_while ev cluster_name zone project_id cluster_status
                  (cluster_status_check_counter + 1) (Some c)
                  (logged INFO ''Deploying operator on cluster'' s2)
              else
                main_while ev cluster_name zone project_id cluster_status
                  (cluster_status_check_counter + 1) (Some c) s2)
         | (Raise e, s1) \<Rightarrow> (Raise e, s1)
         | (OutOfFuel, s1) \<Rightarrow> (OutOfFuel, s1))
      else (Return (Fallthrough cluster), s))"
  by pat_completeness auto
termination
  by (relation "measure (\<lambda>(ev, cluster_name, zone, project_id, cluster_status, n, cluster, s).
        Suc MAX_CLUSTER_STATUS_CHECK_COUNT - n)") auto

text \<open>
  \<open>decoded\<close> is the outcome of
  \<^verbatim>\<open>json.loads(base64.b64decode(data["data"]).decode("utf-8"))\<close>: the decoded payload, or
  the exception raised on the way. \<open>fuel\<close> bounds the pod-readiness loop only.
\<close>

definition main ::
  "(pyval \<Rightarrow> string) \<Rightarrow> config \<Rightarrow> env \<Rightarrow> nat \<Rightarrow> exn + pyval \<Rightarrow> unit run" where
  "main yaml_dump cfg ev fuel decoded =
     try_except
       (bind (lift decoded) (\<lambda>payload.
        bind (lift (getitem payload ''asset'')) (\<lambda>asset.
        bind (lift (getitem asset ''name'')) (\<lambda>name.
        case name of
          PStr asset_name \<Rightarrow>
            bind (lift (list_index (str_split CHR ''/'' asset_name) 8)) (\<lambda>cluster_name.
            bind (lift (list_index (str_split CHR ''/'' asset_name) 4)) (\<lambda>project_id.
            bind (lift (list_index (str_split CHR ''/'' asset_name) 6)) (\<lambda>zone.
            let is_autopilot = True in
            bind (logging INFO (''asset name: '' @ asset_name)) (\<lambda>_.
            bind (logging INFO (''cluster_name: '' @ cluster_name)) (\<lambda>_.
            bind (logging INFO (''project_id: '' @ project_id)) (\<lambda>_.
            bind (logging INFO (''zone: '' @ zone)) (\<lambda>_.
            bind (main_while ev cluster_name zone project_id [] 0 None) (\<lambda>exit.
            case exit of
              EarlyReturn \<Rightarrow> ret ()
            | Fallthrough cluster \<Rightarrow>
                bind (download_operator_manifest ev) (\<lambda>operator_manifest.
                bind (configure_falcon_deployment_manifest yaml_dump cfg ev is_autopilot)
                  (\<lambda>falcon_deployment_manifest.
                bind (case cluster of
                        None \<Rightarrow> raise UnboundLocalError
                      | Some c \<Rightarrow> do_call (get_kube_clients ev) (GetKubeClients c)) (\<lambda>api_client.
                bind (deploy_operator ev api_client fuel) (\<lambda>_.
                bind (deploy_falcon_manifest ev api_client falcon_deployment_manifest) (\<lambda>_.
                logging INFO (''Cluster '' @ cluster_name @ '' protected.''))))))))))))))
        | _ \<Rightarrow> raise AttributeError))))
       (\<lambda>e. bind (logging_exn ERROR ''Unexpected error in main function: '' e) (\<lambda>_. raise e))"

section \<open>Observations on runs\<close>

text \<open>The calls a run has added to those of the state it started in.\<close>

definition new_calls :: "state \<Rightarrow> state \<Rightarrow> call list" where
  "new_calls s s' = drop (length (calls s)) (calls s')"

text \<open>An apply call is \<^verbatim>\<open>utils.create_from_yaml\<close>; a create call is the \<^verbatim>\<open>create\<close> of the
  dynamic client's resource.\<close>

fun is_apply :: "call \<Rightarrow> bool" where
  "is_apply (CreateFromYaml api f) = True"
| "is_apply _ = False"

fun is_create :: "call \<Rightarrow> bool" where
  "is_create (CreateResource api body ns) = True"
| "is_create _ = False"

fun is_fetch :: "call \<Rightarrow> bool" where
  "is_fetch (GetCluster cluster_name zone project_id) = True"
| "is_fetch _ = False"

fun is_write :: "call \<Rightarrow> bool" where
  "is_write (WriteFile f text) = True"
| "is_write _ = False"

fun is_sleep :: "call \<Rightarrow> bool" where
  "is_sleep (Sleep n) = True"
| "is_sleep _ = False"

text \<open>The last part of \<^verbatim>\<open>deploy_operator\<close>, from "Check if pods are ready" on.\<close>

definition await_pods :: "env \<Rightarrow> api_client \<Rightarrow> nat \<Rightarrow> unit run" where
  "await_pods ev api_client fuel =
     bind (logging INFO ''Checking to see if pods in falcon-operator are ready.'') (\<lambda>_.
     bind (check_pods_are_ready ev api_client ''falcon-operator'') (\<lambda>pods_ready.
     bind (pods_ready_while ev api_client fuel pods_ready) (\<lambda>pods_ready.
     if pods_ready then logging INFO ''Pods are in ready state. Proceeding with deployment.''
     else ret ())))"

text \<open>
  What \<^verbatim>\<open>configure_falcon_deployment_manifest\<close> returns, and the logging calls it makes
  before writing the file, in closed form (lemma \<open>configure_closed_form\<close>).
\<close>

definition rendered_node_config :: "config \<Rightarrow> bool \<Rightarrow> dict" where
  "rendered_node_config cfg is_autopilot =
     (if FALCON_AUTO_UPDATE cfg \<noteq> ''off'' \<or> FALCON_UPDATE_POLICY cfg \<noteq> []
      then [(''advanced'',
             PDict ((if FALCON_AUTO_UPDATE cfg \<noteq> ''off''
                     then [(''autoUpdate'', PStr (FALCON_AUTO_UPDATE cfg))] else [])
                  @ (if FALCON_UPDATE_POLICY cfg \<noteq> []
                     then [(''updatePolicy'', PStr (FALCON_UPDATE_POLICY cfg))] else [])))]
      else [])
     @ (if FALCON_SENSOR_VERSION cfg \<noteq> []
        then [(''version'', PStr (FALCON_SENSOR_VERSION cfg))] else [])
     @ (if is_autopilot then (case autopilot_config of PDict d \<Rightarrow> d | _ \<Rightarrow> []) else [])"

definition rendered_manifest :: "config \<Rightarrow> bool \<Rightarrow> pyval" where
  "rendered_manifest cfg is_autopilot =
     PDict
       [(''apiVersion'', PStr ''falcon.crowdstrike.com/v1alpha1''),
        (''kind'', PStr ''FalconDeployment''),
        (''metadata'', PDict [(''name'', PStr ''falcon-deployment'')]),
        (''spec'',
         PDict
           ([(''falcon_api'',
              PDict
                [(''client_id'', PStr (FALCON_CLIENT_ID cfg)),
                 (''client_secret'', PStr (FALCON_CLIENT_SECRET cfg)),
                 (''cloud_region'', PStr ''us-2'')]),
             (''deployAdmissionController'', PBool True),
             (''deployNodeSensor'', PBool True),
             (''deployImageAnalyzer'', PBool False),
             (''deployContainerSensor'', PBool False)]
            @ (if FALCON_SENSOR_TAGS cfg \<noteq> []
               then [(''falcon'', PDict [(''tags'', PStr (FALCON_SENSOR_TAGS cfg))])] else [])
            @ [(''falconNodeSensor'',
                PDict [(''node'', PDict (rendered_node_config cfg is_autopilot))])]))]"

definition configure_logs :: "config \<Rightarrow> log_entry list" where
  "configure_logs cfg =
     (if FALCON_AUTO_UPDATE cfg \<noteq> ''off''
      then [Log INFO (''Auto-update enabled with mode: '' @ FALCON_AUTO_UPDATE cfg)] else [])
     @ (if FALCON_UPDATE_POLICY cfg \<noteq> []
        then [Log INFO (''Using update policy: '' @ FALCON_UPDATE_POLICY cfg)] else [])
     @ (if FALCON_SENSOR_VERSION cfg \<noteq> []
        then [Log INFO (''Pinning sensor version to: '' @ FALCON_SENSOR_VERSION cfg)] else [])
     @ (if FALCON_SENSOR_TAGS cfg \<noteq> []
        then [Log INFO (''Adding sensor tags: '' @ FALCON_SENSOR_TAGS cfg)] else [])"

text \<open>The key paths of a value: every sequence of dictionary keys that leads from the
  value to something inside it (list positions are passed through).\<close>

fun key_paths :: "pyval \<Rightarrow> string list list"
  and key_paths_dict :: "(string \<times> pyval) list \<Rightarrow> string list list"
  and key_paths_list :: "pyval list \<Rightarrow> string list list" where
  "key_paths (PDict d) = key_paths_dict d"
| "key_paths (PList xs) = key_paths_list xs"
| "key_paths PNone = []"
| "key_paths (PBool b) = []"
| "key_paths (PInt i) = []"
| "key_paths (PStr s) = []"
| "key_paths_dict [] = []"
| "key_paths_dict ((k, v) # d) = [k] # map ((#) k) (key_paths v) @ key_paths_dict d"
| "key_paths_list [] = []"
| "key_paths_list (x # xs) = key_paths x @ key_paths_list xs"

text \<open>\<^verbatim>\<open>v[k1]...[kn]\<close>.\<close>

fun getpath :: "pyval \<Rightarrow> string list \<Rightarrow> exn + pyval" where
  "getpath v [] = Inr v"
| "getpath v (k # ks) = (case getitem v k of Inl e \<Rightarrow> Inl e | Inr sub \<Rightarrow> getpath sub ks)"

text \<open>A configuration with every optional setting present, and the default one.\<close>

definition sample_config :: config where
  "sample_config =
     \<lparr>FALCON_CLIENT_ID = ''id'', FALCON_CLIENT_SECRET = ''secret'',
      FALCON_AUTO_UPDATE = ''normal'', FALCON_UPDATE_POLICY = ''policy-1'',
      FALCON_SENSOR_VERSION = ''7.10.0'', FALCON_SENSOR_TAGS = ''tag1,tag2''\<rparr>"

definition default_config :: config where
  "default_config =
     \<lparr>FALCON_CLIENT_ID = ''id'', FALCON_CLIENT_SECRET = ''secret'',
      FALCON_AUTO_UPDATE = ''off'', FALCON_UPDATE_POLICY = [],
      FALCON_SENSOR_VERSION = [], FALCON_SENSOR_TAGS = []\<rparr>"

text \<open>A stand-in for \<^verbatim>\<open>yaml.dump\<close> in sample runs: the keys of the value, in order.\<close>

definition sample_dump :: "pyval \<Rightarrow> string" where
  "sample_dump v = concat (map (\<lambda>p. concat p @ '';'') (key_paths v))"

text \<open>
  Two properties of a run, from every start state: it only appends calls that satisfy
  \<open>P\<close>; and its first call is \<open>c0\<close>, followed only by calls that satisfy \<open>P\<close>.
\<close>

definition appends_only :: "(call \<Rightarrow> bool) \<Rightarrow> 'a run \<Rightarrow> bool" where
  "appends_only P m = (\<forall>s. \<exists>xs. calls (snd (m s)) = calls s @ xs \<and> (\<forall>c \<in> set xs. P c))"

definition first_call :: "call \<Rightarrow> (call \<Rightarrow> bool) \<Rightarrow> 'a run \<Rightarrow> bool" where
  "first_call c0 P m =
     (\<forall>s. \<exists>xs. calls (snd (m s)) = calls s @ c0 # xs \<and> (\<forall>c \<in> set xs. P c))"

text \<open>
  The two parts of \<^verbatim>\<open>main\<close> after the event is parsed and logged: the readiness loop
  with what follows it, under the handler of the \<^verbatim>\<open>try\<close>; and, inside it, the
  deployment sequence after the loop (\<^verbatim>\<open>is_autopilot\<close> is \<open>True\<close> there).
\<close>

definition main_deploy ::
  "(pyval \<Rightarrow> string) \<Rightarrow> config \<Rightarrow> env \<Rightarrow> nat \<Rightarrow> string \<Rightarrow> cluster option \<Rightarrow> unit run" where
  "main_deploy yaml_dump cfg ev fuel cluster_name cluster =
     bind (download_operator_manifest ev) (\<lambda>operator_manifest.
     bind (configure_falcon_deployment_manifest yaml_dump cfg ev True)
       (\<lambda>falcon_deployment_manifest.
     bind (case cluster of
             None \<Rightarrow> raise UnboundLocalError
           | Some c \<Rightarrow> do_call (get_kube_clients ev) (GetKubeClients c)) (\<lambda>api_client.
     bind (deploy_operator ev api_client fuel) (\<lambda>_.
     bind (deploy_falcon_manifest ev api_client falcon_deployment_manifest) (\<lambda>_.
     logging INFO (''Cluster '' @ cluster_name @ '' protected.''))))))"

definition main_poll_and_deploy ::
  "(pyval \<Rightarrow> string) \<Rightarrow> config \<Rightarrow> env \<Rightarrow> nat \<Rightarrow> string \<Rightarrow> string \<Rightarrow> string \<Rightarrow> unit run" where
  "main_poll_and_deploy yaml_dump cfg ev fuel cluster_name zone project_id =
     try_except
       (bind (main_while ev cluster_name zone project_id [] 0 None) (\<lambda>exit.
        case exit of
          EarlyReturn \<Rightarrow> ret ()
        | Fallthrough cluster \<Rightarrow> main_deploy yaml_dump cfg ev fuel cluster_name cluster))
       (\<lambda>e. bind (logging_exn ERROR ''Unexpected error in main function: '' e) (\<lambda>_. raise e))"

text \<open>The decoded payload of a cluster-creation event for cluster \<open>demo\<close> in zone
  \<open>us-central1-a\<close> of project \<open>proj1\<close>.\<close>

definition sample_payload :: pyval where
  "sample_payload =
     PDict [(''asset'',
       PDict [(''name'',
         PStr ''//container.googleapis.com/projects/proj1/zones/us-central1-a/clusters/demo'')])]"

text \<open>The autopilot sub-configuration, as found in the node section of a manifest.\<close>

definition has_autopilot_config :: "pyval \<Rightarrow> bool" where
  "has_autopilot_config m =
     (getpath m [''spec'', ''falconNodeSensor'', ''node'', ''backend''] = Inr (PStr ''bpf'')
      \<and> getpath m [''spec'', ''falconNodeSensor'', ''node'', ''gke'']
          = Inr (PDict [(''autopilot'', PBool True)])
      \<and> getpath m [''spec'', ''falconNodeSensor'', ''node'', ''resources'']
          = Inr (PDict [(''requests'',
               PDict [(''cpu'', PStr ''750m''), (''memory'', PStr ''1.5Gi'')])])
      \<and> getpath m [''spec'', ''falconNodeSensor'', ''node'', ''tolerations'']
          = Inr (PList
               [PDict
                  [(''effect'', PStr ''NoSchedule''),
                   (''operator'', PStr ''Equal''),
                   (''key'', PStr ''kubernetes.io/arch''),
                   (''value'', PStr ''amd64'')]]))"

section \<open>Sample environments\<close>

text \<open>
  An environment whose answers do not depend on the calls made before: the cluster has
  the given status, and the namespace read, the pod list, the custom-object list and the
  resource lookup answer as given; everything else succeeds.
\<close>

definition fixed_env ::
  "string \<Rightarrow> exn + unit \<Rightarrow> exn + pod list \<Rightarrow> exn + pyval \<Rightarrow> exn + unit \<Rightarrow> env" where
  "fixed_env status ns pods crs lookup =
     \<lparr>get_cluster = (\<lambda>h. Inr \<lparr>status_name = status, autopilot_enabled = False\<rparr>),
      get_kube_clients = (\<lambda>h. Inr 7),
      urlretrieve = (\<lambda>h. Inr ()),
      read_file = (\<lambda>h. Inr ''operator''),
      write_file = (\<lambda>h. Inr ()),
      read_namespace = (\<lambda>h. ns),
      list_namespaced_pod = (\<lambda>h. pods),
      create_from_yaml = (\<lambda>h. Inr ()),
      new_dynamic_client = (\<lambda>h. Inr ()),
      list_cluster_custom_object = (\<lambda>h. crs),
      resources_get = (\<lambda>h. lookup),
      create = (\<lambda>h. Inr ())\<rparr>"

definition initial_state :: state where
  "initial_state = \<lparr>calls = [], logs = []\<rparr>"

section \<open>Basic facts\<close>

lemmas run_defs = bind_def ret_def raise_def lift_def try_except_def do_call_def sleep_def
  logging_def logging_exn_def

lemma pods_ready_while_calls:
  "\<exists>xs. calls (snd (pods_ready_while ev api fuel b s)) = calls s @ xs
        \<and> set xs \<subseteq> {Sleep 10, ListNamespacedPod api ''falcon-operator''}"
proof (induction fuel arbitrary: b s)
  case 0
  then show ?case by (cases b) simp_all
next
  case (Suc n)
  show ?case
  proof (cases b)
    case True
    then show ?thesis by simp
  next
    case False
    let ?s1 = "\<lparr>calls = calls s @ [Sleep 10, ListNamespacedPod api ''falcon-operator''],
                 logs = logs s @ [Log INFO ''Pods are not yet ready. Sleeping for 10 seconds'']\<rparr>"
    show ?thesis
    proof (cases "list_namespaced_pod ev (calls s @ [Sleep 10, ListNamespacedPod api ''falcon-operator''])")
      case (Inl e)
      with False show ?thesis
        by (simp add: run_defs check_pods_are_ready_def POD_READY_STATE_SECONDS_TO_SLEEP_def)
    next
      case (Inr pods)
      from Suc.IH[of "pods_ready_for False pods" ?s1] obtain xs where
        xs: "calls (snd (pods_ready_while ev api n (pods_ready_for False pods) ?s1)) = calls ?s1 @ xs"
            "set xs \<subseteq> {Sleep 10, ListNamespacedPod api ''falcon-operator''}" by blast
      have "pods_ready_while ev api (Suc n) b s = pods_ready_while ev api n (pods_ready_for False pods) ?s1"
        using False Inr
        by (cases s) (simp add: run_defs check_pods_are_ready_def POD_READY_STATE_SECONDS_TO_SLEEP_def)
      with xs show ?thesis
        by (intro exI[of _ "[Sleep 10, ListNamespacedPod api ''falcon-operator''] @ xs"]) simp
    qed
  qed
qed

lemma await_pods_calls:
  "\<exists>xs. calls (snd (await_pods ev api fuel s)) = calls s @ xs
        \<and> set xs \<subseteq> {Sleep 10, ListNamespacedPod api ''falcon-operator''}"
proof (cases "list_namespaced_pod ev (calls s @ [ListNamespacedPod api ''falcon-operator''])")
  case (Inl e)
  then show ?thesis
    by (simp add: await_pods_def run_defs check_pods_are_ready_def)
next
  case (Inr pods)
  let ?s1 = "\<lparr>calls = calls s @ [ListNamespacedPod api ''falcon-operator''],
      logs = logs s @ [Log INFO ''Checking to see if pods in falcon-operator are ready.'']\<rparr>"
  obtain xs where
    xs: "calls (snd (pods_ready_while ev api fuel (pods_ready_for False pods) ?s1)) = calls ?s1 @ xs"
        "set xs \<subseteq> {Sleep 10, ListNamespacedPod api ''falcon-operator''}"
    using pods_ready_while_calls[of ev api fuel "pods_ready_for False pods" ?s1] by blast
  obtain r s2 where r: "pods_ready_while ev api fuel (pods_ready_for False pods) ?s1 = (r, s2)"
    by (cases "pods_ready_while ev api fuel (pods_ready_for False pods) ?s1")
  have "calls (snd (await_pods ev api fuel s)) = calls s2"
    using Inr r
    by (cases s; cases r) (simp_all add: await_pods_def run_defs check_pods_are_ready_def)
  with xs r show ?thesis
    by (intro exI[of _ "ListNamespacedPod api ''falcon-operator'' # xs"]) simp
qed

lemma deploy_operator_await:
  "deploy_operator ev api_client fuel =
     bind (check_resources_deployed ev api_client ''falcon-operator'') (\<lambda>deployed.
     bind (if deployed then logging INFO ''Pod resources exist... Skipping deployment''
           else
             try_except
               (bind (logging INFO ''Deploying Falcon operator'') (\<lambda>_.
                do_call (create_from_yaml ev) (CreateFromYaml api_client ''falcon_operator.yaml'')))
               (\<lambda>e. bind (logging_exn ERROR [] e) (\<lambda>_. raise e))) (\<lambda>_.
     await_pods ev api_client fuel))"
  by (simp add: deploy_operator_def await_pods_def)


lemma await_pods_applies:
  assumes "calls s1 = calls s @ pre"
  shows "filter is_apply (new_calls s (snd (await_pods ev api fuel s1))) = filter is_apply pre"
proof -
  obtain xs where xs: "calls (snd (await_pods ev api fuel s1)) = calls s1 @ xs"
      "set xs \<subseteq> {Sleep 10, ListNamespacedPod api ''falcon-operator''}"
    using await_pods_calls by blast
  have "filter is_apply xs = []"
    using xs(2) by (auto simp: filter_empty_conv)
  with xs(1) assms show ?thesis by (simp add: new_calls_def)
qed

lemma deploy_operator_skip:
  assumes "read_namespace ev (calls s @ [ReadNamespace api ''falcon-operator'']) = Inr ()"
    and "list_namespaced_pod ev (calls s @ [ReadNamespace api ''falcon-operator'',
           ListNamespacedPod api ''falcon-operator'']) = Inr pods"
    and "pods \<noteq> []"
  shows "deploy_operator ev api fuel s =
     await_pods ev api fuel
       \<lparr>calls = calls s @ [ReadNamespace api ''falcon-operator'',
           ListNamespacedPod api ''falcon-operator''],
        logs = logs s @ [Log DEBUG ''Checking for namespace: falcon-operator.'',
           Log DEBUG ''Namespace falcon-operator exists.'',
           Log INFO ''Pod resources exist... Skipping deployment'']\<rparr>"
  using assms
  by (cases s) (simp add: deploy_operator_await check_resources_deployed_def run_defs)

lemma deploy_operator_absent:
  assumes "read_namespace ev (calls s @ [ReadNamespace api ''falcon-operator''])
             = Inl (ApiException (Some 404))"
  shows "deploy_operator ev api fuel s =
     (case create_from_yaml ev (calls s @ [ReadNamespace api ''falcon-operator'',
              CreateFromYaml api ''falcon_operator.yaml'']) of
        Inr u \<Rightarrow>
          await_pods ev api fuel
            \<lparr>calls = calls s @ [ReadNamespace api ''falcon-operator'',
                CreateFromYaml api ''falcon_operator.yaml''],
             logs = logs s @ [Log DEBUG ''Checking for namespace: falcon-operator.'',
                Log INFO ''Deploying Falcon operator'']\<rparr>
      | Inl e \<Rightarrow>
          (Raise e,
           \<lparr>calls = calls s @ [ReadNamespace api ''falcon-operator'',
                CreateFromYaml api ''falcon_operator.yaml''],
            logs = logs s @ [Log DEBUG ''Checking for namespace: falcon-operator.'',
                Log INFO ''Deploying Falcon operator'', LogExn ERROR [] e]\<rparr>))"
  using assms
  by (cases s) (simp add: deploy_operator_await check_resources_deployed_def run_defs
      split: sum.splits)

lemma deploy_operator_no_pods:
  assumes "read_namespace ev (calls s @ [ReadNamespace api ''falcon-operator'']) = Inr ()"
    and "list_namespaced_pod ev (calls s @ [ReadNamespace api ''falcon-operator'',
           ListNamespacedPod api ''falcon-operator'']) = Inr []"
  shows "deploy_operator ev api fuel s =
     (case create_from_yaml ev (calls s @ [ReadNamespace api ''falcon-operator'',
              ListNamespacedPod api ''falcon-operator'',
              CreateFromYaml api ''falcon_operator.yaml'']) of
        Inr u \<Rightarrow>
          await_pods ev api fuel
            \<lparr>calls = calls s @ [ReadNamespace api ''falcon-operator'',
                ListNamespacedPod api ''falcon-operator'',
                CreateFromYaml api ''falcon_operator.yaml''],
             logs = logs s @ [Log DEBUG ''Checking for namespace: falcon-operator.'',
                Log DEBUG ''Namespace falcon-operator exists.'',
                Log INFO ''Deploying Falcon operator'']\<rparr>
      | Inl e \<Rightarrow>
          (Raise e,
           \<lparr>calls = calls s @ [ReadNamespace api ''falcon-operator'',
                ListNamespacedPod api ''falcon-operator'',
                CreateFromYaml api ''falcon_operator.yaml''],
            logs = logs s @ [Log DEBUG ''Checking for namespace: falcon-operator.'',
                Log DEBUG ''Namespace falcon-operator exists.'',
                Log INFO ''Deploying Falcon operator'', LogExn ERROR [] e]\<rparr>))"
  using assms
  by (cases s) (simp add: deploy_operator_await check_resources_deployed_def run_defs
      split: sum.splits)

lemma list_falcon_deployments_calls:
  "calls (snd (list_falcon_deployments ev api s)) =
     calls s @ [ListClusterCustomObject api
        ''falcon.crowdstrike.com'' ''v1alpha1'' ''falcondeployments'']"
  by (cases s) (simp add: list_falcon_deployments_def run_defs split: sum.splits exn.splits)

lemma configure_closed_form:
  "configure_falcon_deployment_manifest yaml_dump cfg ev is_autopilot s =
     (case write_file ev (calls s @ [WriteFile ''node_sensor_manifest.yaml''
               (yaml_dump (rendered_manifest cfg is_autopilot))]) of
        Inl e \<Rightarrow>
          (Raise e,
           \<lparr>calls = calls s @ [WriteFile ''node_sensor_manifest.yaml''
               (yaml_dump (rendered_manifest cfg is_autopilot))],
            logs = logs s @ configure_logs cfg\<rparr>)
      | Inr written \<Rightarrow>
          (Return (rendered_manifest cfg is_autopilot),
           \<lparr>calls = calls s @ [WriteFile ''node_sensor_manifest.yaml''
               (yaml_dump (rendered_manifest cfg is_autopilot))],
            logs = logs s @ configure_logs cfg @
               [Log DEBUG (''Generated manifest:'' @ [CHR 0x0A] @
                  yaml_dump (rendered_manifest cfg is_autopilot))]\<rparr>))"
  by (cases s; cases "FALCON_AUTO_UPDATE cfg = ''off''"; cases "FALCON_UPDATE_POLICY cfg = []";
      cases "FALCON_SENSOR_VERSION cfg = []"; cases "FALCON_SENSOR_TAGS cfg = []";
      cases is_autopilot)
    (simp_all add: configure_falcon_deployment_manifest_def run_defs rendered_manifest_def
      rendered_node_config_def configure_logs_def manifest_literal_def autopilot_config_def Let_def
      split: sum.splits)


lemma rendered_manifest_tags:
  "\<forall>p \<in> set (key_paths (rendered_manifest cfg is_autopilot)).
     ''tags'' \<in> set p \<longrightarrow> p = [''spec'', ''falcon'', ''tags'']"
  by (cases "FALCON_AUTO_UPDATE cfg = ''off''"; cases "FALCON_UPDATE_POLICY cfg = []";
      cases "FALCON_SENSOR_VERSION cfg = []"; cases "FALCON_SENSOR_TAGS cfg = []";
      cases is_autopilot)
    (simp_all add: rendered_manifest_def rendered_node_config_def autopilot_config_def)

lemma rendered_manifest_node_fields:
  "\<forall>p \<in> set (key_paths (rendered_manifest cfg is_autopilot)).
     ''version'' \<in> set p \<or> ''advanced'' \<in> set p
       \<or> ''autoUpdate'' \<in> set p \<or> ''updatePolicy'' \<in> set p
     \<longrightarrow> prefix [''spec'', ''falconNodeSensor'', ''node''] p"
  by (cases "FALCON_AUTO_UPDATE cfg = ''off''"; cases "FALCON_UPDATE_POLICY cfg = []";
      cases "FALCON_SENSOR_VERSION cfg = []"; cases "FALCON_SENSOR_TAGS cfg = []";
      cases is_autopilot)
    (simp_all add: rendered_manifest_def rendered_node_config_def autopilot_config_def)

lemma rendered_manifest_values:
  "(FALCON_SENSOR_TAGS cfg \<noteq> [] \<longrightarrow>
      getpath (rendered_manifest cfg is_autopilot) [''spec'', ''falcon'', ''tags'']
        = Inr (PStr (FALCON_SENSOR_TAGS cfg)))
   \<and> (FALCON_SENSOR_VERSION cfg \<noteq> [] \<longrightarrow>
      getpath (rendered_manifest cfg is_autopilot)
        [''spec'', ''falconNodeSensor'', ''node'', ''version'']
        = Inr (PStr (FALCON_SENSOR_VERSION cfg)))
   \<and> (FALCON_AUTO_UPDATE cfg \<noteq> ''off'' \<longrightarrow>
      getpath (rendered_manifest cfg is_autopilot)
        [''spec'', ''falconNodeSensor'', ''node'', ''advanced'', ''autoUpdate'']
        = Inr (PStr (FALCON_AUTO_UPDATE cfg)))
   \<and> (FALCON_UPDATE_POLICY cfg \<noteq> [] \<longrightarrow>
      getpath (rendered_manifest cfg is_autopilot)
        [''spec'', ''falconNodeSensor'', ''node'', ''advanced'', ''updatePolicy'']
        = Inr (PStr (FALCON_UPDATE_POLICY cfg)))"
  by (cases "FALCON_AUTO_UPDATE cfg = ''off''"; cases "FALCON_UPDATE_POLICY cfg = []";
      cases "FALCON_SENSOR_VERSION cfg = []"; cases "FALCON_SENSOR_TAGS cfg = []";
      cases is_autopilot)
    (simp_all add: rendered_manifest_def rendered_node_config_def autopilot_config_def)

declare main_while.simps [simp del]

lemma appends_only_ret: "appends_only P (ret a)"
  by (simp add: appends_only_def ret_def)

lemma appends_only_raise: "appends_only P (raise e)"
  by (simp add: appends_only_def raise_def)

lemma appends_only_lift: "appends_only P (lift r)"
  by (simp add: appends_only_def lift_def split: sum.splits)

lemma appends_only_logging: "appends_only P (logging l msg)"
  by (simp add: appends_only_def logging_def)

lemma appends_only_logging_exn: "appends_only P (logging_exn l msg e)"
  by (simp add: appends_only_def logging_exn_def)

lemma appends_only_sleep: "P (Sleep n) \<Longrightarrow> appends_only P (sleep n)"
  by (simp add: appends_only_def sleep_def)

lemma appends_only_do_call: "P c \<Longrightarrow> appends_only P (do_call answer c)"
  by (simp add: appends_only_def do_call_def)

lemma appends_only_bind:
  assumes "appends_only P m" and "\<And>a. appends_only P (f a)"
  shows "appends_only P (bind m f)"
  unfolding appends_only_def
proof
  fix s
  obtain r s1 where m: "m s = (r, s1)" by (cases "m s")
  obtain xs where xs: "calls s1 = calls s @ xs" "\<forall>c \<in> set xs. P c"
    using assms(1) m unfolding appends_only_def by (metis snd_conv)
  show "\<exists>xs. calls (snd (bind m f s)) = calls s @ xs \<and> (\<forall>c \<in> set xs. P c)"
  proof (cases r)
    case (Return a)
    obtain ys where ys: "calls (snd (f a s1)) = calls s1 @ ys" "\<forall>c \<in> set ys. P c"
      using assms(2)[of a] unfolding appends_only_def by blast
    have "calls (snd (bind m f s)) = calls s @ (xs @ ys)"
      using m Return xs ys by (simp add: bind_def)
    moreover have "\<forall>c \<in> set (xs @ ys). P c" using xs ys by auto
    ultimately show ?thesis by blast
  next
    case (Raise e)
    then show ?thesis using m xs by (auto simp add: bind_def)
  next
    case OutOfFuel
    then show ?thesis using m xs by (auto simp add: bind_def)
  qed
qed

lemma appends_only_try_except:
  assumes "appends_only P m" and "\<And>e. appends_only P (h e)"
  shows "appends_only P (try_except m h)"
  unfolding appends_only_def
proof
  fix s
  obtain r s1 where m: "m s = (r, s1)" by (cases "m s")
  obtain xs where xs: "calls s1 = calls s @ xs" "\<forall>c \<in> set xs. P c"
    using assms(1) m unfolding appends_only_def by (metis snd_conv)
  show "\<exists>xs. calls (snd (try_except m h s)) = calls s @ xs \<and> (\<forall>c \<in> set xs. P c)"
  proof (cases r)
    case (Raise e)
    obtain ys where ys: "calls (snd (h e s1)) = calls s1 @ ys" "\<forall>c \<in> set ys. P c"
      using assms(2)[of e] unfolding appends_only_def by blast
    have "calls (snd (try_except m h s)) = calls s @ (xs @ ys)"
      using m Raise xs ys by (simp add: try_except_def)
    moreover have "\<forall>c \<in> set (xs @ ys). P c" using xs ys by auto
    ultimately show ?thesis by blast
  next
    case (Return a)
    then show ?thesis using m xs by (auto simp add: try_except_def)
  next
    case OutOfFuel
    then show ?thesis using m xs by (auto simp add: try_except_def)
  qed
qed

lemma appends_only_mono:
  "appends_only P m \<Longrightarrow> (\<And>c. P c \<Longrightarrow> Q c) \<Longrightarrow> appends_only Q m"
  unfolding appends_only_def by meson

lemmas appends_only_intros = appends_only_ret appends_only_raise appends_only_lift
  appends_only_logging appends_only_logging_exn appends_only_sleep appends_only_do_call
  appends_only_bind appends_only_try_except

lemma check_resources_deployed_appends:
  "P (ReadNamespace api ns) \<Longrightarrow> P (ListNamespacedPod api ns) \<Longrightarrow>
   appends_only P (check_resources_deployed ev api ns)"
  unfolding check_resources_deployed_def
  by (auto intro!: appends_only_intros split: exn.split option.split)

lemma check_pods_are_ready_appends:
  "P (ListNamespacedPod api ns) \<Longrightarrow> appends_only P (check_pods_are_ready ev api ns)"
  unfolding check_pods_are_ready_def
  by (auto intro!: appends_only_intros)

lemma download_operator_manifest_appends:
  "P (UrlRetrieve FALCON_OPERATOR_URL ''falcon_operator.yaml'') \<Longrightarrow>
   P (ReadFile ''falcon_operator.yaml'') \<Longrightarrow>
   appends_only P (download_operator_manifest ev)"
  unfolding download_operator_manifest_def
  by (auto intro!: appends_only_intros)

lemma list_falcon_deployments_appends:
  "P (ListClusterCustomObject api ''falcon.crowdstrike.com'' ''v1alpha1'' ''falcondeployments'') \<Longrightarrow>
   appends_only P (list_falcon_deployments ev api)"
  unfolding list_falcon_deployments_def
  by (auto intro!: appends_only_intros split: exn.split)

lemma deploy_falcon_manifest_appends:
  "P (NewDynamicClient api) \<Longrightarrow>
   P (ListClusterCustomObject api ''falcon.crowdstrike.com'' ''v1alpha1'' ''falcondeployments'') \<Longrightarrow>
   P (ResourcesGet api ''falcon.crowdstrike.com/v1alpha1'' ''FalconDeployment'') \<Longrightarrow>
   P (CreateResource api m ''falcon-operator'') \<Longrightarrow>
   appends_only P (deploy_falcon_manifest ev api m)"
  unfolding deploy_falcon_manifest_def
  by (auto intro!: appends_only_intros list_falcon_deployments_appends)

lemma pods_ready_while_appends:
  "P (Sleep 10) \<Longrightarrow> P (ListNamespacedPod api ''falcon-operator'') \<Longrightarrow>
   appends_only P (pods_ready_while ev api fuel b)"
  unfolding appends_only_def
proof
  fix s
  assume P: "P (Sleep 10)" "P (ListNamespacedPod api ''falcon-operator'')"
  obtain xs where "calls (snd (pods_ready_while ev api fuel b s)) = calls s @ xs"
      "set xs \<subseteq> {Sleep 10, ListNamespacedPod api ''falcon-operator''}"
    using pods_ready_while_calls by blast
  with P show "\<exists>xs. calls (snd (pods_ready_while ev api fuel b s)) = calls s @ xs
      \<and> (\<forall>c \<in> set xs. P c)"
    by (intro exI[of _ xs]) auto
qed

lemma deploy_operator_appends:
  "P (ReadNamespace api ''falcon-operator'') \<Longrightarrow>
   P (ListNamespacedPod api ''falcon-operator'') \<Longrightarrow>
   P (CreateFromYaml api ''falcon_operator.yaml'') \<Longrightarrow>
   P (Sleep 10) \<Longrightarrow>
   appends_only P (deploy_operator ev api fuel)"
  unfolding deploy_operator_def
  by (auto intro!: appends_only_intros check_resources_deployed_appends
      check_pods_are_ready_appends pods_ready_while_appends)

lemma configure_appends:
  "P (WriteFile ''node_sensor_manifest.yaml'' (yaml_dump (rendered_manifest cfg is_autopilot))) \<Longrightarrow>
   appends_only P (configure_falcon_deployment_manifest yaml_dump cfg ev is_autopilot)"
  by (auto simp add: appends_only_def configure_closed_form split: sum.splits)

lemma configure_bind_appends:
  assumes "P (WriteFile ''node_sensor_manifest.yaml''
      (yaml_dump (rendered_manifest cfg is_autopilot)))"
    and "appends_only P (f (rendered_manifest cfg is_autopilot))"
  shows "appends_only P
     (bind (configure_falcon_deployment_manifest yaml_dump cfg ev is_autopilot) f)"
  unfolding appends_only_def
proof
  fix s
  let ?w = "WriteFile ''node_sensor_manifest.yaml''
      (yaml_dump (rendered_manifest cfg is_autopilot))"
  show "\<exists>xs. calls (snd (bind (configure_falcon_deployment_manifest yaml_dump cfg ev
             is_autopilot) f s)) = calls s @ xs \<and> (\<forall>c \<in> set xs. P c)"
  proof (cases "write_file ev (calls s @ [?w])")
    case (Inl e)
    then show ?thesis using assms(1)
      by (simp add: bind_def configure_closed_form)
  next
    case (Inr u)
    let ?s1 = "\<lparr>calls = calls s @ [?w],
        logs = logs s @ configure_logs cfg @
           [Log DEBUG (''Generated manifest:'' @ [CHR 0x0A] @
              yaml_dump (rendered_manifest cfg is_autopilot))]\<rparr>"
    obtain ys where ys:
      "calls (snd (f (rendered_manifest cfg is_autopilot) ?s1)) = calls ?s1 @ ys"
      "\<forall>c \<in> set ys. P c"
      using assms(2) unfolding appends_only_def by blast
    have "calls (snd (bind (configure_falcon_deployment_manifest yaml_dump cfg ev
             is_autopilot) f s)) = calls s @ (?w # ys)"
      using Inr ys(1) by (simp add: bind_def configure_closed_form)
    moreover have "\<forall>c \<in> set (?w # ys). P c" using assms(1) ys(2) by simp
    ultimately show ?thesis by blast
  qed
qed

lemma main_while_exit:
  "cluster_status = ''RUNNING'' \<or> MAX_CLUSTER_STATUS_CHECK_COUNT < n \<Longrightarrow>
   main_while ev cluster_name zone project_id cluster_status n cluster s
     = (Return (Fallthrough cluster), s)"
  by (subst main_while.simps) auto

lemma main_while_raise:
  "cluster_status \<noteq> ''RUNNING'' \<Longrightarrow> n \<le> MAX_CLUSTER_STATUS_CHECK_COUNT \<Longrightarrow>
   get_cluster ev (calls s @ [GetCluster cluster_name zone project_id]) = Inl e \<Longrightarrow>
   main_while ev cluster_name zone project_id cluster_status n cluster s
     = (Raise e, \<lparr>calls = calls s @ [GetCluster cluster_name zone project_id], logs = logs s\<rparr>)"
  by (cases s) (subst main_while.simps, simp add: run_defs)

lemma main_while_fetch:
  "cluster_status \<noteq> ''RUNNING'' \<Longrightarrow> n \<le> MAX_CLUSTER_STATUS_CHECK_COUNT \<Longrightarrow>
   get_cluster ev (calls s @ [GetCluster cluster_name zone project_id]) = Inr c \<Longrightarrow>
   main_while ev cluster_name zone project_id cluster_status n cluster s
     = (if status_name c \<in> {''STOPPING'', ''ERROR'', ''DEGRADED'', ''STATUS_UNSPECIFIED''}
        then
          (Return EarlyReturn,
           \<lparr>calls = calls s @ [GetCluster cluster_name zone project_id],
            logs = logs s @ [Log DEBUG (''Cluster status: '' @ status_name c @ '' ''),
               Log WARNING (''Cluster in unmanageable state: '' @ status_name c
                  @ ''... Exiting'')]\<rparr>)
        else if status_name c = ''PROVISIONING''
        then
          main_while ev cluster_name zone project_id (status_name c) (n + 1) (Some c)
            \<lparr>calls = calls s @ [GetCluster cluster_name zone project_id, Sleep 60],
             logs = logs s @ [Log DEBUG (''Cluster status: '' @ status_name c @ '' ''),
               Log INFO ''Cluster in provisioning state... Sleeping.'']\<rparr>
        else if status_name c = ''RUNNING''
        then
          main_while ev cluster_name zone project_id (status_name c) (n + 1) (Some c)
            \<lparr>calls = calls s @ [GetCluster cluster_name zone project_id],
             logs = logs s @ [Log DEBUG (''Cluster status: '' @ status_name c @ '' ''),
               Log INFO ''Deploying operator on cluster'']\<rparr>
        else
          main_while ev cluster_name zone project_id (status_name c) (n + 1) (Some c)
            \<lparr>calls = calls s @ [GetCluster cluster_name zone project_id],
             logs = logs s @ [Log DEBUG (''Cluster status: '' @ status_name c @ '' '')]\<rparr>)"
  by (cases s) (subst main_while.simps, simp add: run_defs logged_def slept_def Let_def)

lemma main_while_calls:
  "Suc MAX_CLUSTER_STATUS_CHECK_COUNT - n = k \<Longrightarrow>
   \<exists>xs. calls (snd (main_while ev cluster_name zone project_id cluster_status n cluster s))
          = calls s @ xs
        \<and> (\<forall>c \<in> set xs. c = GetCluster cluster_name zone project_id \<or> c = Sleep 60)"
proof (induction k arbitrary: n cluster_status cluster s)
  case 0
  then have "MAX_CLUSTER_STATUS_CHECK_COUNT < n" by simp
  then show ?case by (simp add: main_while_exit)
next
  case (Suc k)
  let ?g = "GetCluster cluster_name zone project_id"
  show ?case
  proof (cases "cluster_status = ''RUNNING''")
    case True
    then show ?thesis by (simp add: main_while_exit)
  next
    case False
    from Suc.prems have n: "n \<le> MAX_CLUSTER_STATUS_CHECK_COUNT"
      and k: "Suc MAX_CLUSTER_STATUS_CHECK_COUNT - (n + 1) = k" by simp_all
    show ?thesis
    proof (cases "get_cluster ev (calls s @ [?g])")
      case (Inl e)
      show ?thesis
        using main_while_raise[OF False n Inl] by (intro exI[of _ "[?g]"]) simp
    next
      case (Inr c)
      note step = main_while_fetch[OF False n Inr, of cluster]
      consider (stop) "status_name c \<in> {''STOPPING'', ''ERROR'', ''DEGRADED'', ''STATUS_UNSPECIFIED''}"
        | (prov) "status_name c \<notin> {''STOPPING'', ''ERROR'', ''DEGRADED'', ''STATUS_UNSPECIFIED''}"
            "status_name c = ''PROVISIONING''"
        | (run) "status_name c \<notin> {''STOPPING'', ''ERROR'', ''DEGRADED'', ''STATUS_UNSPECIFIED''}"
            "status_name c \<noteq> ''PROVISIONING''" "status_name c = ''RUNNING''"
        | (other) "status_name c \<notin> {''STOPPING'', ''ERROR'', ''DEGRADED'', ''STATUS_UNSPECIFIED''}"
            "status_name c \<noteq> ''PROVISIONING''" "status_name c \<noteq> ''RUNNING''"
        by blast
      then show ?thesis
      proof cases
        case stop
        then show ?thesis using step by (intro exI[of _ "[?g]"]) simp
      next
        case prov
        let ?s1 = "\<lparr>calls = calls s @ [?g, Sleep 60],
             logs = logs s @ [Log DEBUG (''Cluster status: '' @ status_name c @ '' ''),
               Log INFO ''Cluster in provisioning state... Sleeping.'']\<rparr>"
        obtain xs where xs:
          "calls (snd (main_while ev cluster_name zone project_id (status_name c) (n + 1)
              (Some c) ?s1)) = calls ?s1 @ xs"
          "\<forall>c \<in> set xs. c = ?g \<or> c = Sleep 60"
          using Suc.IH[OF k] by blast
        have "main_while ev cluster_name zone project_id cluster_status n cluster s
            = main_while ev cluster_name zone project_id (status_name c) (n + 1) (Some c) ?s1"
          using step prov by simp
        with xs show ?thesis by (intro exI[of _ "[?g, Sleep 60] @ xs"]) simp
      next
        case run
        let ?s1 = "\<lparr>calls = calls s @ [?g],
             logs = logs s @ [Log DEBUG (''Cluster status: '' @ status_name c @ '' ''),
               Log INFO ''Deploying operator on cluster'']\<rparr>"
        obtain xs where xs:
          "calls (snd (main_while ev cluster_name zone project_id (status_name c) (n + 1)
              (Some c) ?s1)) = calls ?s1 @ xs"
          "\<forall>c \<in> set xs. c = ?g \<or> c = Sleep 60"
          using Suc.IH[OF k] by blast
        have "main_while ev cluster_name zone project_id cluster_status n cluster s
            = main_while ev cluster_name zone project_id (status_name c) (n + 1) (Some c) ?s1"
          using step run by simp
        with xs show ?thesis by (intro exI[of _ "[?g] @ xs"]) simp
      next
        case other
        let ?s1 = "\<lparr>calls = calls s @ [?g],
             logs = logs s @ [Log DEBUG (''Cluster status: '' @ status_name c @ '' '')]\<rparr>"
        obtain xs where xs:
          "calls (snd (main_while ev cluster_name zone project_id (status_name c) (n + 1)
              (Some c) ?s1)) = calls ?s1 @ xs"
          "\<forall>c \<in> set xs. c = ?g \<or> c = Sleep 60"
          using Suc.IH[OF k] by blast
        have "main_while ev cluster_name zone project_id cluster_status n cluster s
            = main_while ev cluster_name zone project_id (status_name c) (n + 1) (Some c) ?s1"
          using step other by simp
        with xs show ?thesis by (intro exI[of _ "[?g] @ xs"]) simp
      qed
    qed
  qed
qed

lemma main_while_appends:
  "P (GetCluster cluster_name zone project_id) \<Longrightarrow> P (Sleep 60) \<Longrightarrow>
   appends_only P (main_while ev cluster_name zone project_id cluster_status n cluster)"
  unfolding appends_only_def
proof
  fix s
  assume P: "P (GetCluster cluster_name zone project_id)" "P (Sleep 60)"
  obtain xs where
    "calls (snd (main_while ev cluster_name zone project_id cluster_status n cluster s))
       = calls s @ xs"
    "\<forall>c \<in> set xs. c = GetCluster cluster_name zone project_id \<or> c = Sleep 60"
    using main_while_calls[OF refl] by blast
  with P show "\<exists>xs. calls (snd (main_while ev cluster_name zone project_id cluster_status n
       cluster s)) = calls s @ xs \<and> (\<forall>c \<in> set xs. P c)"
    by (intro exI[of _ xs]) auto
qed

lemma first_call_do_call: "first_call c P (do_call answer c)"
  by (simp add: first_call_def do_call_def)

lemma first_call_bind:
  assumes "first_call c0 P m" and "\<And>a. appends_only P (f a)"
  shows "first_call c0 P (bind m f)"
  unfolding first_call_def
proof
  fix s
  obtain r s1 where m: "m s = (r, s1)" by (cases "m s")
  obtain xs where xs: "calls s1 = calls s @ c0 # xs" "\<forall>c \<in> set xs. P c"
    using assms(1) m unfolding first_call_def by (metis snd_conv)
  show "\<exists>xs. calls (snd (bind m f s)) = calls s @ c0 # xs \<and> (\<forall>c \<in> set xs. P c)"
  proof (cases r)
    case (Return a)
    obtain ys where ys: "calls (snd (f a s1)) = calls s1 @ ys" "\<forall>c \<in> set ys. P c"
      using assms(2)[of a] unfolding appends_only_def by blast
    have "calls (snd (bind m f s)) = calls s @ c0 # (xs @ ys)"
      using m Return xs ys by (simp add: bind_def)
    moreover have "\<forall>c \<in> set (xs @ ys). P c" using xs ys by auto
    ultimately show ?thesis by blast
  next
    case (Raise e)
    then show ?thesis using m xs by (auto simp add: bind_def)
  next
    case OutOfFuel
    then show ?thesis using m xs by (auto simp add: bind_def)
  qed
qed

lemma first_call_try_except:
  assumes "first_call c0 P m" and "\<And>e. appends_only P (h e)"
  shows "first_call c0 P (try_except m h)"
  unfolding first_call_def
proof
  fix s
  obtain r s1 where m: "m s = (r, s1)" by (cases "m s")
  obtain xs where xs: "calls s1 = calls s @ c0 # xs" "\<forall>c \<in> set xs. P c"
    using assms(1) m unfolding first_call_def by (metis snd_conv)
  show "\<exists>xs. calls (snd (try_except m h s)) = calls s @ c0 # xs \<and> (\<forall>c \<in> set xs. P c)"
  proof (cases r)
    case (Raise e)
    obtain ys where ys: "calls (snd (h e s1)) = calls s1 @ ys" "\<forall>c \<in> set ys. P c"
      using assms(2)[of e] unfolding appends_only_def by blast
    have "calls (snd (try_except m h s)) = calls s @ c0 # (xs @ ys)"
      using m Raise xs ys by (simp add: try_except_def)
    moreover have "\<forall>c \<in> set (xs @ ys). P c" using xs ys by auto
    ultimately show ?thesis by blast
  next
    case (Return a)
    then show ?thesis using m xs by (auto simp add: try_except_def)
  next
    case OutOfFuel
    then show ?thesis using m xs by (auto simp add: try_except_def)
  qed
qed

lemma main_deploy_rest_appends:
  assumes "\<And>c. \<not> is_fetch c \<Longrightarrow> \<not> is_create c \<Longrightarrow> \<not> is_write c \<Longrightarrow> c \<noteq> Sleep 60
      \<Longrightarrow> P c"
    and "\<And>api. P (CreateResource api (rendered_manifest cfg True) ''falcon-operator'')"
    and "P (WriteFile ''node_sensor_manifest.yaml'' (yaml_dump (rendered_manifest cfg True)))"
  shows "appends_only P
     (bind (configure_falcon_deployment_manifest yaml_dump cfg ev True)
       (\<lambda>falcon_deployment_manifest.
     bind (case cluster of
             None \<Rightarrow> raise UnboundLocalError
           | Some c \<Rightarrow> do_call (get_kube_clients ev) (GetKubeClients c)) (\<lambda>api_client.
     bind (deploy_operator ev api_client fuel) (\<lambda>_.
     bind (deploy_falcon_manifest ev api_client falcon_deployment_manifest) (\<lambda>_.
     logging INFO (''Cluster '' @ cluster_name @ '' protected.''))))))"
proof (rule configure_bind_appends)
  show "P (WriteFile ''node_sensor_manifest.yaml'' (yaml_dump (rendered_manifest cfg True)))"
    by (rule assms(3))
  show "appends_only P
     (bind (case cluster of
             None \<Rightarrow> raise UnboundLocalError
           | Some c \<Rightarrow> do_call (get_kube_clients ev) (GetKubeClients c)) (\<lambda>api_client.
     bind (deploy_operator ev api_client fuel) (\<lambda>_.
     bind (deploy_falcon_manifest ev api_client (rendered_manifest cfg True)) (\<lambda>_.
     logging INFO (''Cluster '' @ cluster_name @ '' protected.'')))))"
  proof (rule appends_only_bind)
    show "appends_only P
       (case cluster of
          None \<Rightarrow> raise UnboundLocalError
        | Some c \<Rightarrow> do_call (get_kube_clients ev) (GetKubeClients c))"
    proof (cases cluster)
      case None
      then show ?thesis by (simp add: appends_only_raise)
    next
      case (Some c)
      have "P (GetKubeClients c)" by (rule assms(1)) simp_all
      with Some show ?thesis by (simp add: appends_only_do_call)
    qed
  next
    fix api
    have "P (ReadNamespace api ''falcon-operator'')" by (rule assms(1)) simp_all
    moreover have "P (ListNamespacedPod api ''falcon-operator'')" by (rule assms(1)) simp_all
    moreover have "P (CreateFromYaml api ''falcon_operator.yaml'')" by (rule assms(1)) simp_all
    moreover have "P (Sleep 10)" by (rule assms(1)) simp_all
    ultimately have op: "appends_only P (deploy_operator ev api fuel)"
      by (rule deploy_operator_appends)
    have "P (NewDynamicClient api)" by (rule assms(1)) simp_all
    moreover have "P (ListClusterCustomObject api
        ''falcon.crowdstrike.com'' ''v1alpha1'' ''falcondeployments'')"
      by (rule assms(1)) simp_all
    moreover have "P (ResourcesGet api ''falcon.crowdstrike.com/v1alpha1'' ''FalconDeployment'')"
      by (rule assms(1)) simp_all
    moreover note assms(2)[of api]
    ultimately have fm:
      "appends_only P (deploy_falcon_manifest ev api (rendered_manifest cfg True))"
      by (rule deploy_falcon_manifest_appends)
    show "appends_only P
       (bind (deploy_operator ev api fuel) (\<lambda>_.
        bind (deploy_falcon_manifest ev api (rendered_manifest cfg True)) (\<lambda>_.
        logging INFO (''Cluster '' @ cluster_name @ '' protected.''))))"
      by (intro appends_only_bind op fm appends_only_logging)
  qed
qed

lemma main_deploy_first_call:
  assumes "\<And>c. \<not> is_fetch c \<Longrightarrow> \<not> is_create c \<Longrightarrow> \<not> is_write c \<Longrightarrow> c \<noteq> Sleep 60
      \<Longrightarrow> P c"
    and "\<And>api. P (CreateResource api (rendered_manifest cfg True) ''falcon-operator'')"
    and "P (WriteFile ''node_sensor_manifest.yaml'' (yaml_dump (rendered_manifest cfg True)))"
  shows "first_call (UrlRetrieve FALCON_OPERATOR_URL ''falcon_operator.yaml'') P
     (main_deploy yaml_dump cfg ev fuel cluster_name cluster)"
proof -
  have rf: "P (ReadFile ''falcon_operator.yaml'')" by (rule assms(1)) simp_all
  have rest: "appends_only P
     (bind (configure_falcon_deployment_manifest yaml_dump cfg ev True)
       (\<lambda>falcon_deployment_manifest.
     bind (case cluster of
             None \<Rightarrow> raise UnboundLocalError
           | Some c \<Rightarrow> do_call (get_kube_clients ev) (GetKubeClients c)) (\<lambda>api_client.
     bind (deploy_operator ev api_client fuel) (\<lambda>_.
     bind (deploy_falcon_manifest ev api_client falcon_deployment_manifest) (\<lambda>_.
     logging INFO (''Cluster '' @ cluster_name @ '' protected.''))))))"
    by (rule main_deploy_rest_appends) (use assms in blast)+
  show ?thesis
    unfolding main_deploy_def download_operator_manifest_def
    by (intro first_call_bind first_call_do_call appends_only_do_call rf rest)
qed

lemma main_deploy_appends:
  assumes "\<And>c. \<not> is_fetch c \<Longrightarrow> \<not> is_create c \<Longrightarrow> \<not> is_write c \<Longrightarrow> c \<noteq> Sleep 60
      \<Longrightarrow> P c"
    and "\<And>api. P (CreateResource api (rendered_manifest cfg True) ''falcon-operator'')"
    and "P (WriteFile ''node_sensor_manifest.yaml'' (yaml_dump (rendered_manifest cfg True)))"
  shows "appends_only P (main_deploy yaml_dump cfg ev fuel cluster_name cluster)"
proof -
  have "first_call (UrlRetrieve FALCON_OPERATOR_URL ''falcon_operator.yaml'') P
     (main_deploy yaml_dump cfg ev fuel cluster_name cluster)"
    by (rule main_deploy_first_call) (use assms in blast)+
  moreover have "P (UrlRetrieve FALCON_OPERATOR_URL ''falcon_operator.yaml'')"
    by (rule assms(1)) simp_all
  ultimately show ?thesis
    unfolding first_call_def appends_only_def
    by (metis set_ConsD)
qed

lemma main_alt:
  "main yaml_dump cfg ev fuel decoded =
     try_except
       (bind (lift decoded) (\<lambda>payload.
        bind (lift (getitem payload ''asset'')) (\<lambda>asset.
        bind (lift (getitem asset ''name'')) (\<lambda>name.
        case name of
          PStr asset_name \<Rightarrow>
            bind (lift (list_index (str_split CHR ''/'' asset_name) 8)) (\<lambda>cluster_name.
            bind (lift (list_index (str_split CHR ''/'' asset_name) 4)) (\<lambda>project_id.
            bind (lift (list_index (str_split CHR ''/'' asset_name) 6)) (\<lambda>zone.
            bind (logging INFO (''asset name: '' @ asset_name)) (\<lambda>_.
            bind (logging INFO (''cluster_name: '' @ cluster_name)) (\<lambda>_.
            bind (logging INFO (''project_id: '' @ project_id)) (\<lambda>_.
            bind (logging INFO (''zone: '' @ zone)) (\<lambda>_.
            bind (main_while ev cluster_name zone project_id [] 0 None) (\<lambda>exit.
            case exit of
              EarlyReturn \<Rightarrow> ret ()
            | Fallthrough cluster \<Rightarrow>
                main_deploy yaml_dump cfg ev fuel cluster_name cluster))))))))
        | _ \<Rightarrow> raise AttributeError))))
       (\<lambda>e. bind (logging_exn ERROR ''Unexpected error in main function: '' e) (\<lambda>_. raise e))"
  unfolding main_def main_deploy_def Let_def ..

lemma main_parsed:
  assumes "decoded = Inr payload"
    and "getitem payload ''asset'' = Inr asset"
    and "getitem asset ''name'' = Inr (PStr asset_name)"
    and "8 < length (str_split CHR ''/'' asset_name)"
  shows "main yaml_dump cfg ev fuel decoded s =
     main_poll_and_deploy yaml_dump cfg ev fuel
       (str_split CHR ''/'' asset_name ! 8) (str_split CHR ''/'' asset_name ! 6)
       (str_split CHR ''/'' asset_name ! 4)
       \<lparr>calls = calls s,
        logs = logs s @ [Log INFO (''asset name: '' @ asset_name),
           Log INFO (''cluster_name: '' @ str_split CHR ''/'' asset_name ! 8),
           Log INFO (''project_id: '' @ str_split CHR ''/'' asset_name ! 4),
           Log INFO (''zone: '' @ str_split CHR ''/'' asset_name ! 6)]\<rparr>"
  using assms
  by (cases s)
    (simp add: main_alt main_poll_and_deploy_def run_defs list_index_def)

lemma main_malformed:
  assumes "decoded = Inr payload"
    and "getitem payload ''asset'' = Inr asset"
    and "getitem asset ''name'' = Inr (PStr asset_name)"
    and "length (str_split CHR ''/'' asset_name) < 9"
  shows "main yaml_dump cfg ev fuel decoded s =
     (Raise IndexError,
      \<lparr>calls = calls s,
       logs = logs s @ [LogExn ERROR ''Unexpected error in main function: '' IndexError]\<rparr>)"
  using assms
  by (cases s) (simp add: main_def run_defs list_index_def)

lemma main_while_first_call:
  assumes "cluster_status \<noteq> ''RUNNING''" and "n \<le> MAX_CLUSTER_STATUS_CHECK_COUNT"
    and "P (GetCluster cluster_name zone project_id)" and "P (Sleep 60)"
  shows "first_call (GetCluster cluster_name zone project_id) P
     (main_while ev cluster_name zone project_id cluster_status n cluster)"
  unfolding first_call_def
proof
  fix s
  let ?g = "GetCluster cluster_name zone project_id"
  let ?r = "main_while ev cluster_name zone project_id cluster_status n cluster s"
  have rec: "\<exists>xs. calls (snd (main_while ev cluster_name zone project_id st' n' cl' s1))
        = calls s @ ?g # xs \<and> (\<forall>c \<in> set xs. P c)"
    if "calls s1 = calls s @ ?g # ys" "\<forall>c \<in> set ys. P c" for st' n' cl' s1 ys
  proof -
    obtain xs where xs:
      "calls (snd (main_while ev cluster_name zone project_id st' n' cl' s1)) = calls s1 @ xs"
      "\<forall>c \<in> set xs. P c"
      using main_while_appends[OF assms(3,4), of ev st' n' cl'] unfolding appends_only_def
      by blast
    with that show ?thesis by (intro exI[of _ "ys @ xs"]) auto
  qed
  show "\<exists>xs. calls (snd ?r) = calls s @ ?g # xs \<and> (\<forall>c \<in> set xs. P c)"
  proof (cases "get_cluster ev (calls s @ [?g])")
    case (Inl e)
    show ?thesis
      using main_while_raise[OF assms(1,2) Inl] by (intro exI[of _ "[]"]) simp
  next
    case (Inr c)
    note step = main_while_fetch[OF assms(1,2) Inr, of cluster]
    consider (stop) "status_name c \<in> {''STOPPING'', ''ERROR'', ''DEGRADED'', ''STATUS_UNSPECIFIED''}"
      | (prov) "status_name c \<notin> {''STOPPING'', ''ERROR'', ''DEGRADED'', ''STATUS_UNSPECIFIED''}"
          "status_name c = ''PROVISIONING''"
      | (run) "status_name c \<notin> {''STOPPING'', ''ERROR'', ''DEGRADED'', ''STATUS_UNSPECIFIED''}"
          "status_name c \<noteq> ''PROVISIONING''" "status_name c = ''RUNNING''"
      | (other) "status_name c \<notin> {''STOPPING'', ''ERROR'', ''DEGRADED'', ''STATUS_UNSPECIFIED''}"
          "status_name c \<noteq> ''PROVISIONING''" "status_name c \<noteq> ''RUNNING''"
      by blast
    then show ?thesis
    proof cases
      case stop
      then show ?thesis using step by (intro exI[of _ "[]"]) simp
    next
      case prov
      have "?r = main_while ev cluster_name zone project_id (status_name c) (n + 1) (Some c)
            \<lparr>calls = calls s @ [?g, Sleep 60],
             logs = logs s @ [Log DEBUG (''Cluster status: '' @ status_name c @ '' ''),
               Log INFO ''Cluster in provisioning state... Sleeping.'']\<rparr>"
        using step prov by simp
      then show ?thesis
        using rec[where ys = "[Sleep 60]"] assms(4) by simp
    next
      case run
      have "?r = main_while ev cluster_name zone project_id (status_name c) (n + 1) (Some c)
            \<lparr>calls = calls s @ [?g],
             logs = logs s @ [Log DEBUG (''Cluster status: '' @ status_name c @ '' ''),
               Log INFO ''Deploying operator on cluster'']\<rparr>"
        using step run by simp
      then show ?thesis
        using rec[where ys = "[]"] by simp
    next
      case other
      have "?r = main_while ev cluster_name zone project_id (status_name c) (n + 1) (Some c)
            \<lparr>calls = calls s @ [?g],
             logs = logs s @ [Log DEBUG (''Cluster status: '' @ status_name c @ '' '')]\<rparr>"
        using step other by simp
      then show ?thesis
        using rec[where ys = "[]"] by simp
    qed
  qed
qed

lemma main_poll_and_deploy_first_call:
  assumes "P (GetCluster cluster_name zone project_id)" and "P (Sleep 60)"
    and "\<And>c. \<not> is_fetch c \<Longrightarrow> \<not> is_create c \<Longrightarrow> \<not> is_write c \<Longrightarrow> c \<noteq> Sleep 60
      \<Longrightarrow> P c"
    and "\<And>api. P (CreateResource api (rendered_manifest cfg True) ''falcon-operator'')"
    and "P (WriteFile ''node_sensor_manifest.yaml'' (yaml_dump (rendered_manifest cfg True)))"
  shows "first_call (GetCluster cluster_name zone project_id) P
     (main_poll_and_deploy yaml_dump cfg ev fuel cluster_name zone project_id)"
proof -
  have w: "first_call (GetCluster cluster_name zone project_id) P
     (main_while ev cluster_name zone project_id [] 0 None)"
    by (rule main_while_first_call) (use assms in simp_all)
  have d: "appends_only P
     (case exit of
        EarlyReturn \<Rightarrow> ret ()
      | Fallthrough cluster \<Rightarrow> main_deploy yaml_dump cfg ev fuel cluster_name cluster)" for exit
  proof (cases exit)
    case (Fallthrough cluster)
    have "appends_only P (main_deploy yaml_dump cfg ev fuel cluster_name cluster)"
      by (rule main_deploy_appends) (use assms in blast)+
    with Fallthrough show ?thesis by simp
  next
    case EarlyReturn
    then show ?thesis by (simp add: appends_only_ret)
  qed
  show ?thesis
    unfolding main_poll_and_deploy_def
    by (intro first_call_try_except first_call_bind w d appends_only_bind
        appends_only_logging_exn appends_only_raise)
qed

lemma rendered_manifest_autopilot: "has_autopilot_config (rendered_manifest cfg True)"
  by (cases "FALCON_AUTO_UPDATE cfg = ''off''"; cases "FALCON_UPDATE_POLICY cfg = []";
      cases "FALCON_SENSOR_VERSION cfg = []"; cases "FALCON_SENSOR_TAGS cfg = []")
    (simp_all add: has_autopilot_config_def rendered_manifest_def rendered_node_config_def
      autopilot_config_def)

lemma main_appends:
  assumes "\<And>c. \<not> is_create c \<Longrightarrow> \<not> is_write c \<Longrightarrow> P c"
    and "\<And>api. P (CreateResource api (rendered_manifest cfg True) ''falcon-operator'')"
    and "P (WriteFile ''node_sensor_manifest.yaml'' (yaml_dump (rendered_manifest cfg True)))"
  shows "appends_only P (main yaml_dump cfg ev fuel decoded)"
proof -
  have d: "appends_only P
     (case exit of
        EarlyReturn \<Rightarrow> ret ()
      | Fallthrough cluster \<Rightarrow> main_deploy yaml_dump cfg ev fuel cluster_name cluster)"
    for exit cluster_name
  proof (cases exit)
    case (Fallthrough cluster)
    have "appends_only P (main_deploy yaml_dump cfg ev fuel cluster_name cluster)"
      by (rule main_deploy_appends) (use assms in blast)+
    with Fallthrough show ?thesis by simp
  next
    case EarlyReturn
    then show ?thesis by (simp add: appends_only_ret)
  qed
  have w: "appends_only P (main_while ev cluster_name zone project_id [] 0 None)"
    for cluster_name zone project_id
    by (rule main_while_appends) (rule assms(1); simp)+
  show ?thesis
    unfolding main_alt
    by (auto intro!: appends_only_intros w d split: pyval.split)
qed

lemmas eval_defs = main_def Let_def run_defs list_index_def main_while.simps logged_def slept_def
  download_operator_manifest_def configure_closed_form deploy_operator_def
  check_resources_deployed_def check_pods_are_ready_def deploy_falcon_manifest_def
  list_falcon_deployments_def fixed_env_def sample_payload_def initial_state_def new_calls_def
  MAX_CLUSTER_STATUS_CHECK_COUNT_def POD_READY_STATE_SECONDS_TO_SLEEP_def

lemma main_while_provisioning:
  assumes "\<forall>h. \<exists>c. get_cluster ev h = Inr c \<and> status_name c = ''PROVISIONING''"
    and "cluster_status \<noteq> ''RUNNING''"
    and "Suc MAX_CLUSTER_STATUS_CHECK_COUNT - n = k"
  shows "\<exists>cl' s'. main_while ev cluster_name zone project_id cluster_status n cluster s
          = (Return (Fallthrough cl'), s')
        \<and> calls s' = calls s
            @ concat (replicate k [GetCluster cluster_name zone project_id, Sleep 60])
        \<and> (k = 0 \<and> cl' = cluster \<or> (\<exists>c. cl' = Some c \<and> status_name c = ''PROVISIONING''))"
  using assms(2,3)
proof (induction k arbitrary: n cluster_status cluster s)
  case 0
  then have "MAX_CLUSTER_STATUS_CHECK_COUNT < n" by simp
  then show ?case by (simp add: main_while_exit)
next
  case (Suc k)
  let ?g = "GetCluster cluster_name zone project_id"
  from Suc.prems have n: "n \<le> MAX_CLUSTER_STATUS_CHECK_COUNT"
    and k: "Suc MAX_CLUSTER_STATUS_CHECK_COUNT - (n + 1) = k" by simp_all
  obtain c where c: "get_cluster ev (calls s @ [?g]) = Inr c" "status_name c = ''PROVISIONING''"
    using assms(1) by blast
  let ?s1 = "\<lparr>calls = calls s @ [?g, Sleep 60],
       logs = logs s @ [Log DEBUG (''Cluster status: '' @ status_name c @ '' ''),
         Log INFO ''Cluster in provisioning state... Sleeping.'']\<rparr>"
  have step: "main_while ev cluster_name zone project_id cluster_status n cluster s
      = main_while ev cluster_name zone project_id (status_name c) (n + 1) (Some c) ?s1"
    using main_while_fetch[OF Suc.prems(1) n c(1), of cluster] c(2) by simp
  have "status_name c \<noteq> ''RUNNING''" using c(2) by simp
  from Suc.IH[OF this k, of "Some c" ?s1] obtain cl' s' where r:
    "main_while ev cluster_name zone project_id (status_name c) (n + 1) (Some c) ?s1
       = (Return (Fallthrough cl'), s')"
    "calls s' = calls ?s1 @ concat (replicate k [?g, Sleep 60])"
    "k = 0 \<and> cl' = Some c \<or> (\<exists>c'. cl' = Some c' \<and> status_name c' = ''PROVISIONING'')"
    by blast
  have "\<exists>c'. cl' = Some c' \<and> status_name c' = ''PROVISIONING''" using r(3) c(2) by auto
  with r(1,2) step show ?case by simp
qed

lemma filter_fetch_polls:
  "filter is_fetch (concat (replicate k [GetCluster cluster_name zone project_id, Sleep 60]))
     = replicate k (GetCluster cluster_name zone project_id)"
  by (induction k) simp_all

lemma filter_sleep_polls:
  "filter is_sleep (concat (replicate k [GetCluster cluster_name zone project_id, Sleep 60]))
     = replicate k (Sleep 60)"
  by (induction k) simp_all

lemma length_polls:
  "length (concat (replicate k [GetCluster cluster_name zone project_id, Sleep 60])) = 2 * k"
  by (induction k) simp_all

section \<open>Claims\<close>

text \<open>
  C1. Operator deployment is idempotent. When reading the namespace \<open>falcon-operator\<close>
  succeeds and its pod list holds at least one pod, \<open>deploy_operator\<close> makes no apply call
  (\<open>create_from_yaml\<close>), whatever the fuel of the readiness wait. When the namespace read
  answers 404, or the namespace is there and its pod list is empty, it makes exactly one
  apply call, of the file \<open>falcon_operator.yaml\<close> that \<open>download_operator_manifest\<close> wrote.
\<close>

theorem deploy_operator_idempotent:
  "(read_namespace ev (calls s @ [ReadNamespace api ''falcon-operator'']) = Inr ()
      \<and> list_namespaced_pod ev (calls s @ [ReadNamespace api ''falcon-operator'',
            ListNamespacedPod api ''falcon-operator'']) = Inr pods
      \<and> pods \<noteq> []
    \<longrightarrow> filter is_apply (new_calls s (snd (deploy_operator ev api fuel s))) = [])
   \<and> (read_namespace ev (calls s @ [ReadNamespace api ''falcon-operator''])
         = Inl (ApiException (Some 404))
       \<or> read_namespace ev (calls s @ [ReadNamespace api ''falcon-operator'']) = Inr ()
         \<and> list_namespaced_pod ev (calls s @ [ReadNamespace api ''falcon-operator'',
              ListNamespacedPod api ''falcon-operator'']) = Inr []
    \<longrightarrow> filter is_apply (new_calls s (snd (deploy_operator ev api fuel s)))
          = [CreateFromYaml api ''falcon_operator.yaml''])"
proof (intro conjI impI)
  assume "read_namespace ev (calls s @ [ReadNamespace api ''falcon-operator'']) = Inr ()
      \<and> list_namespaced_pod ev (calls s @ [ReadNamespace api ''falcon-operator'',
            ListNamespacedPod api ''falcon-operator'']) = Inr pods
      \<and> pods \<noteq> []"
  then show "filter is_apply (new_calls s (snd (deploy_operator ev api fuel s))) = []"
    by (simp add: deploy_operator_skip await_pods_applies)
next
  assume "read_namespace ev (calls s @ [ReadNamespace api ''falcon-operator''])
         = Inl (ApiException (Some 404))
       \<or> read_namespace ev (calls s @ [ReadNamespace api ''falcon-operator'']) = Inr ()
         \<and> list_namespaced_pod ev (calls s @ [ReadNamespace api ''falcon-operator'',
              ListNamespacedPod api ''falcon-operator'']) = Inr []"
  then show "filter is_apply (new_calls s (snd (deploy_operator ev api fuel s)))
          = [CreateFromYaml api ''falcon_operator.yaml'']"
  proof
    assume "read_namespace ev (calls s @ [ReadNamespace api ''falcon-operator''])
         = Inl (ApiException (Some 404))"
    then show ?thesis
      using await_pods_applies[of _ s "[ReadNamespace api ''falcon-operator'',
                CreateFromYaml api ''falcon_operator.yaml'']" ev api fuel]
      by (simp add: deploy_operator_absent new_calls_def split: sum.splits)
  next
    assume "read_namespace ev (calls s @ [ReadNamespace api ''falcon-operator'']) = Inr ()
         \<and> list_namespaced_pod ev (calls s @ [ReadNamespace api ''falcon-operator'',
              ListNamespacedPod api ''falcon-operator'']) = Inr []"
    then show ?thesis
      using await_pods_applies[of _ s "[ReadNamespace api ''falcon-operator'',
                ListNamespacedPod api ''falcon-operator'',
                CreateFromYaml api ''falcon_operator.yaml'']" ev api fuel]
      by (simp add: deploy_operator_no_pods new_calls_def split: sum.splits)
  qed
qed

theorem deploy_operator_idempotent_witness:
  "filter is_apply (new_calls initial_state (snd (deploy_operator
       (fixed_env ''RUNNING'' (Inr ()) (Inr [Pod ''Pending'']) (Inr (PDict [])) (Inr ())) 7 3
       initial_state))) = []
   \<and> filter is_apply (new_calls initial_state (snd (deploy_operator
       (fixed_env ''RUNNING'' (Inl (ApiException (Some 404))) (Inr [Pod ''Running''])
          (Inr (PDict [])) (Inr ())) 7 3
       initial_state))) = [CreateFromYaml 7 ''falcon_operator.yaml'']
   \<and> filter is_apply (new_calls initial_state (snd (deploy_operator
       (fixed_env ''RUNNING'' (Inr ()) (Inr []) (Inr (PDict [])) (Inr ())) 7 3
       initial_state))) = [CreateFromYaml 7 ''falcon_operator.yaml'']"
  using deploy_operator_idempotent
      [where ev = "fixed_env ''RUNNING'' (Inr ()) (Inr [Pod ''Pending'']) (Inr (PDict [])) (Inr ())"
         and s = initial_state and api = 7 and pods = "[Pod ''Pending'']" and fuel = 3]
    deploy_operator_idempotent
      [where ev = "fixed_env ''RUNNING'' (Inl (ApiException (Some 404))) (Inr [Pod ''Running''])
          (Inr (PDict [])) (Inr ())"
         and s = initial_state and api = 7 and pods = "[]" and fuel = 3]
    deploy_operator_idempotent
      [where ev = "fixed_env ''RUNNING'' (Inr ()) (Inr []) (Inr (PDict [])) (Inr ())"
         and s = initial_state and api = 7 and pods = "[]" and fuel = 3]
  by (simp add: fixed_env_def)

text \<open>
  C8. A 404 is the only negative signal of the two existence checks. Whatever exception
  the namespace read raises, \<open>check_resources_deployed\<close> returns \<open>False\<close> when it is an
  ApiException with status 404 and re-raises it otherwise, without listing pods; an
  exception of the pod list is logged and re-raised, 404 or not. Whatever exception the
  custom-object list raises, \<open>list_falcon_deployments\<close> returns the empty list when it is
  an ApiException with status 404 and re-raises it otherwise.
\<close>

theorem not_found_is_only_negative_signal:
  "(read_namespace ev (calls s @ [ReadNamespace api ns]) = Inl e \<longrightarrow>
      check_resources_deployed ev api ns s =
        (if e = ApiException (Some 404) then Return False else Raise e,
         \<lparr>calls = calls s @ [ReadNamespace api ns],
          logs = logs s @ [Log DEBUG (''Checking for namespace: '' @ ns @ ''.'')]\<rparr>))
   \<and> (read_namespace ev (calls s @ [ReadNamespace api ns]) = Inr ()
       \<and> list_namespaced_pod ev (calls s @ [ReadNamespace api ns, ListNamespacedPod api ns])
           = Inl e' \<longrightarrow>
      check_resources_deployed ev api ns s =
        (Raise e',
         \<lparr>calls = calls s @ [ReadNamespace api ns, ListNamespacedPod api ns],
          logs = logs s @ [Log DEBUG (''Checking for namespace: '' @ ns @ ''.''),
            Log DEBUG (''Namespace '' @ ns @ '' exists.''), LogExn ERROR [] e']\<rparr>))
   \<and> (list_cluster_custom_object ev
         (calls s @ [ListClusterCustomObject api
            ''falcon.crowdstrike.com'' ''v1alpha1'' ''falcondeployments'']) = Inl e'' \<longrightarrow>
      list_falcon_deployments ev api s =
        (if e'' = ApiException (Some 404) then Return (PList []) else Raise e'',
         \<lparr>calls = calls s @ [ListClusterCustomObject api
              ''falcon.crowdstrike.com'' ''v1alpha1'' ''falcondeployments''],
          logs = logs s @
             [Log INFO ''Checking to see if there are existing Falcon deployments'']\<rparr>))"
  by (cases s; cases e; cases e'')
    (simp_all add: check_resources_deployed_def list_falcon_deployments_def run_defs)

theorem not_found_is_only_negative_signal_witness:
  "check_resources_deployed
      (fixed_env ''RUNNING'' (Inl (ApiException (Some 404))) (Inr []) (Inr (PDict [])) (Inr ()))
      7 ''falcon-operator'' initial_state =
     (Return False,
      \<lparr>calls = [ReadNamespace 7 ''falcon-operator''],
       logs = [Log DEBUG ''Checking for namespace: falcon-operator.'']\<rparr>)
   \<and> fst (check_resources_deployed
      (fixed_env ''RUNNING'' (Inl (ApiException (Some 500))) (Inr []) (Inr (PDict [])) (Inr ()))
      7 ''falcon-operator'' initial_state) = Raise (ApiException (Some 500))
   \<and> fst (check_resources_deployed
      (fixed_env ''RUNNING'' (Inr ()) (Inl (ApiException (Some 404))) (Inr (PDict [])) (Inr ()))
      7 ''falcon-operator'' initial_state) = Raise (ApiException (Some 404))
   \<and> fst (list_falcon_deployments
      (fixed_env ''RUNNING'' (Inr ()) (Inr []) (Inl (ApiException (Some 404))) (Inr ()))
      7 initial_state) = Return (PList [])
   \<and> fst (list_falcon_deployments
      (fixed_env ''RUNNING'' (Inr ()) (Inr []) (Inl (ApiException (Some 403))) (Inr ()))
      7 initial_state) = Raise (ApiException (Some 403))"
  using not_found_is_only_negative_signal
      [where ev = "fixed_env ''RUNNING'' (Inl (ApiException (Some 404))) (Inr [])
          (Inr (PDict [])) (Inr ())"
         and s = initial_state and api = 7 and ns = "''falcon-operator''"
         and e = "ApiException (Some 404)"]
    not_found_is_only_negative_signal
      [where ev = "fixed_env ''RUNNING'' (Inl (ApiException (Some 500))) (Inr [])
          (Inr (PDict [])) (Inr ())"
         and s = initial_state and api = 7 and ns = "''falcon-operator''"
         and e = "ApiException (Some 500)"]
    not_found_is_only_negative_signal
      [where ev = "fixed_env ''RUNNING'' (Inr ()) (Inl (ApiException (Some 404)))
          (Inr (PDict [])) (Inr ())"
         and s = initial_state and api = 7 and ns = "''falcon-operator''"
         and e' = "ApiException (Some 404)"]
    not_found_is_only_negative_signal
      [where ev = "fixed_env ''RUNNING'' (Inr ()) (Inr []) (Inl (ApiException (Some 404))) (Inr ())"
         and s = initial_state and api = 7 and e'' = "ApiException (Some 404)"]
    not_found_is_only_negative_signal
      [where ev = "fixed_env ''RUNNING'' (Inr ()) (Inr []) (Inl (ApiException (Some 403))) (Inr ())"
         and s = initial_state and api = 7 and e'' = "ApiException (Some 403)"]
  by (simp add: fixed_env_def initial_state_def)

text \<open>
  C2. The agent descriptor is deployed first-writer-wins. \<open>deploy_falcon_manifest\<close> first
  constructs the dynamic client; an exception of that construction propagates, before
  any list call and without a log entry. With the client constructed: when the
  cluster-scoped list of FalconDeployment resources answers with a non-empty \<open>items\<close>
  list, the function returns normally after that list call, with no lookup and no create;
  when the list answers with an empty \<open>items\<close> list or with a 404, the FalconDeployment
  resource kind is looked up first; an exception of the lookup is logged and re-raised
  with no create call made; after a successful lookup exactly one create call is made, of
  the given manifest in namespace \<open>falcon-operator\<close>, and an exception of that create is
  logged and re-raised.
\<close>

theorem deploy_falcon_manifest_first_writer_wins:
  "(new_dynamic_client ev (calls s @ [NewDynamicClient api]) = Inl e \<longrightarrow>
      deploy_falcon_manifest ev api manifest_json s =
        (Raise e, \<lparr>calls = calls s @ [NewDynamicClient api], logs = logs s\<rparr>))
   \<and> (new_dynamic_client ev (calls s @ [NewDynamicClient api]) = Inr ()
       \<and> list_cluster_custom_object ev
            (calls s @ [NewDynamicClient api,
               ListClusterCustomObject api
                 ''falcon.crowdstrike.com'' ''v1alpha1'' ''falcondeployments'']) = Inr response
       \<and> getitem response ''items'' = Inr (PList items) \<and> items \<noteq> [] \<longrightarrow>
      deploy_falcon_manifest ev api manifest_json s =
        (Return (),
         \<lparr>calls = calls s @ [NewDynamicClient api,
              ListClusterCustomObject api
                ''falcon.crowdstrike.com'' ''v1alpha1'' ''falcondeployments''],
          logs = logs s @ [Log INFO ''Checking to see if there are existing Falcon deployments'',
              Log INFO ''There are existing Falcon deployments. Exiting...'']\<rparr>))
   \<and> (new_dynamic_client ev (calls s @ [NewDynamicClient api]) = Inr ()
       \<and> (list_cluster_custom_object ev
            (calls s @ [NewDynamicClient api,
               ListClusterCustomObject api
                 ''falcon.crowdstrike.com'' ''v1alpha1'' ''falcondeployments''])
              = Inl (ApiException (Some 404))
          \<or> list_cluster_custom_object ev
            (calls s @ [NewDynamicClient api,
               ListClusterCustomObject api
                 ''falcon.crowdstrike.com'' ''v1alpha1'' ''falcondeployments'']) = Inr response
            \<and> getitem response ''items'' = Inr (PList [])) \<longrightarrow>
      deploy_falcon_manifest ev api manifest_json s =
        (case resources_get ev
                (calls s @ [NewDynamicClient api,
                   ListClusterCustomObject api
                     ''falcon.crowdstrike.com'' ''v1alpha1'' ''falcondeployments'',
                   ResourcesGet api ''falcon.crowdstrike.com/v1alpha1'' ''FalconDeployment'']) of
           Inl e \<Rightarrow>
             (Raise e,
              \<lparr>calls = calls s @ [NewDynamicClient api,
                   ListClusterCustomObject api
                     ''falcon.crowdstrike.com'' ''v1alpha1'' ''falcondeployments'',
                   ResourcesGet api ''falcon.crowdstrike.com/v1alpha1'' ''FalconDeployment''],
               logs = logs s @
                  [Log INFO ''Checking to see if there are existing Falcon deployments'',
                   Log INFO ''There are no existing Falcon deployments'',
                   Log INFO ''Deploying Falcon'', LogExn ERROR [] e]\<rparr>)
         | Inr found \<Rightarrow>
             (case create ev
                     (calls s @ [NewDynamicClient api,
                        ListClusterCustomObject api
                          ''falcon.crowdstrike.com'' ''v1alpha1'' ''falcondeployments'',
                        ResourcesGet api ''falcon.crowdstrike.com/v1alpha1'' ''FalconDeployment'',
                        CreateResource api manifest_json ''falcon-operator'']) of
                Inl e \<Rightarrow>
                  (Raise e,
                   \<lparr>calls = calls s @ [NewDynamicClient api,
                        ListClusterCustomObject api
                          ''falcon.crowdstrike.com'' ''v1alpha1'' ''falcondeployments'',
                        ResourcesGet api ''falcon.crowdstrike.com/v1alpha1'' ''FalconDeployment'',
                        CreateResource api manifest_json ''falcon-operator''],
                    logs = logs s @
                       [Log INFO ''Checking to see if there are existing Falcon deployments'',
                        Log INFO ''There are no existing Falcon deployments'',
                        Log INFO ''Deploying Falcon'', LogExn ERROR [] e]\<rparr>)
              | Inr created \<Rightarrow>
                  (Return (),
                   \<lparr>calls = calls s @ [NewDynamicClient api,
                        ListClusterCustomObject api
                          ''falcon.crowdstrike.com'' ''v1alpha1'' ''falcondeployments'',
                        ResourcesGet api ''falcon.crowdstrike.com/v1alpha1'' ''FalconDeployment'',
                        CreateResource api manifest_json ''falcon-operator''],
                    logs = logs s @
                       [Log INFO ''Checking to see if there are existing Falcon deployments'',
                        Log INFO ''There are no existing Falcon deployments'',
                        Log INFO ''Deploying Falcon'']\<rparr>))))"
  by (cases s)
    (auto simp add: deploy_falcon_manifest_def list_falcon_deployments_def run_defs
      split: sum.splits)

theorem deploy_falcon_manifest_first_writer_wins_witness:
  "deploy_falcon_manifest
      ((fixed_env ''RUNNING'' (Inr ()) (Inr []) (Inr (PDict [(''items'', PList [PDict []])]))
          (Inr ()))\<lparr>new_dynamic_client := (\<lambda>h. Inl (ApiException (Some 403)))\<rparr>)
      7 (PDict []) initial_state =
     (Raise (ApiException (Some 403)), \<lparr>calls = [NewDynamicClient 7], logs = []\<rparr>)
   \<and> deploy_falcon_manifest
      (fixed_env ''RUNNING'' (Inr ()) (Inr []) (Inr (PDict [(''items'', PList [PDict []])])) (Inr ()))
      7 (PDict []) initial_state =
     (Return (),
      \<lparr>calls = [NewDynamicClient 7,
         ListClusterCustomObject 7
           ''falcon.crowdstrike.com'' ''v1alpha1'' ''falcondeployments''],
       logs = [Log INFO ''Checking to see if there are existing Falcon deployments'',
           Log INFO ''There are existing Falcon deployments. Exiting...'']\<rparr>)
   \<and> deploy_falcon_manifest
      (fixed_env ''RUNNING'' (Inr ()) (Inr []) (Inl (ApiException (Some 404))) (Inr ()))
      7 (PDict []) initial_state =
     (Return (),
      \<lparr>calls = [NewDynamicClient 7,
         ListClusterCustomObject 7
           ''falcon.crowdstrike.com'' ''v1alpha1'' ''falcondeployments'',
         ResourcesGet 7 ''falcon.crowdstrike.com/v1alpha1'' ''FalconDeployment'',
         CreateResource 7 (PDict []) ''falcon-operator''],
       logs = [Log INFO ''Checking to see if there are existing Falcon deployments'',
           Log INFO ''There are no existing Falcon deployments'',
           Log INFO ''Deploying Falcon'']\<rparr>)
   \<and> deploy_falcon_manifest
      (fixed_env ''RUNNING'' (Inr ()) (Inr []) (Inr (PDict [(''items'', PList [])])) (Inr ()))
      7 (PDict []) initial_state =
     (Return (),
      \<lparr>calls = [NewDynamicClient 7,
         ListClusterCustomObject 7
           ''falcon.crowdstrike.com'' ''v1alpha1'' ''falcondeployments'',
         ResourcesGet 7 ''falcon.crowdstrike.com/v1alpha1'' ''FalconDeployment'',
         CreateResource 7 (PDict []) ''falcon-operator''],
       logs = [Log INFO ''Checking to see if there are existing Falcon deployments'',
           Log INFO ''There are no existing Falcon deployments'',
           Log INFO ''Deploying Falcon'']\<rparr>)"
  using deploy_falcon_manifest_first_writer_wins
      [where ev = "(fixed_env ''RUNNING'' (Inr ()) (Inr [])
             (Inr (PDict [(''items'', PList [PDict []])]))
             (Inr ()))\<lparr>new_dynamic_client := (\<lambda>h. Inl (ApiException (Some 403)))\<rparr>"
         and api = 7 and s = initial_state and manifest_json = "PDict []"
         and e = "ApiException (Some 403)"]
    deploy_falcon_manifest_first_writer_wins
      [where ev = "fixed_env ''RUNNING'' (Inr ()) (Inr [])
             (Inr (PDict [(''items'', PList [PDict []])])) (Inr ())"
         and api = 7 and s = initial_state and items = "[PDict []]"
         and response = "PDict [(''items'', PList [PDict []])]"
         and manifest_json = "PDict []"]
    deploy_falcon_manifest_first_writer_wins
      [where ev = "fixed_env ''RUNNING'' (Inr ()) (Inr []) (Inl (ApiException (Some 404))) (Inr ())"
         and api = 7 and s = initial_state and manifest_json = "PDict []"]
    deploy_falcon_manifest_first_writer_wins
      [where ev = "fixed_env ''RUNNING'' (Inr ()) (Inr []) (Inr (PDict [(''items'', PList [])]))
             (Inr ())"
         and api = 7 and s = initial_state and manifest_json = "PDict []"
         and response = "PDict [(''items'', PList [])]"]
  by (simp add: fixed_env_def initial_state_def)

text \<open>
  Two runs the claim as written does not allow for. The list is empty and the lookup of
  the resource kind raises: no create call is made. The list holds a deployment and the
  construction of the dynamic client raises: the function does not return normally.
\<close>

theorem deploy_falcon_manifest_counterexample:
  "list_cluster_custom_object
       (fixed_env ''RUNNING'' (Inr ()) (Inr [Pod ''Running'']) (Inr (PDict [(''items'', PList [])]))
          (Inl (OtherError ''ResourceNotFoundError'')))
       [NewDynamicClient 7,
        ListClusterCustomObject 7 ''falcon.crowdstrike.com'' ''v1alpha1'' ''falcondeployments'']
     = Inr (PDict [(''items'', PList [])])
   \<and> length (filter is_create (calls (snd (deploy_falcon_manifest
       (fixed_env ''RUNNING'' (Inr ()) (Inr [Pod ''Running'']) (Inr (PDict [(''items'', PList [])]))
          (Inl (OtherError ''ResourceNotFoundError'')))
       7 (PDict []) initial_state)))) \<noteq> 1
   \<and> list_cluster_custom_object
       ((fixed_env ''RUNNING'' (Inr ()) (Inr [Pod ''Running''])
           (Inr (PDict [(''items'', PList [PDict []])]))
           (Inr ()))\<lparr>new_dynamic_client := (\<lambda>h. Inl (ApiException (Some 403)))\<rparr>)
       [NewDynamicClient 7,
        ListClusterCustomObject 7 ''falcon.crowdstrike.com'' ''v1alpha1'' ''falcondeployments'']
     = Inr (PDict [(''items'', PList [PDict []])])
   \<and> fst (deploy_falcon_manifest
       ((fixed_env ''RUNNING'' (Inr ()) (Inr [Pod ''Running''])
           (Inr (PDict [(''items'', PList [PDict []])]))
           (Inr ()))\<lparr>new_dynamic_client := (\<lambda>h. Inl (ApiException (Some 403)))\<rparr>)
       7 (PDict []) initial_state) \<noteq> Return ()"
  by (simp add: deploy_falcon_manifest_def list_falcon_deployments_def fixed_env_def
      initial_state_def run_defs)

text \<open>
  C6. Manifest building is deterministic. Two runs of
  \<open>configure_falcon_deployment_manifest\<close> with the same configuration and the same
  autopilot flag, in any two environments and from any two states, make the same calls:
  one write of \<open>node_sensor_manifest.yaml\<close> with the same text. When both return, they
  return the same mapping, and the text written is the YAML of that mapping. A run
  returns whenever the environment accepts the write.
\<close>

theorem configure_falcon_deployment_manifest_deterministic:
  "new_calls s1 (snd (configure_falcon_deployment_manifest yaml_dump cfg ev1 is_autopilot s1))
     = new_calls s2 (snd (configure_falcon_deployment_manifest yaml_dump cfg ev2 is_autopilot s2))
   \<and> (fst (configure_falcon_deployment_manifest yaml_dump cfg ev1 is_autopilot s1) = Return m1
       \<and> fst (configure_falcon_deployment_manifest yaml_dump cfg ev2 is_autopilot s2) = Return m2
      \<longrightarrow> m1 = m2
        \<and> new_calls s1 (snd (configure_falcon_deployment_manifest yaml_dump cfg ev1 is_autopilot s1))
            = [WriteFile ''node_sensor_manifest.yaml'' (yaml_dump m1)])
   \<and> (write_file ev1
         (calls (snd (configure_falcon_deployment_manifest yaml_dump cfg ev1 is_autopilot s1)))
         = Inr ()
      \<longrightarrow> (\<exists>m. fst (configure_falcon_deployment_manifest yaml_dump cfg ev1 is_autopilot s1)
                 = Return m))"
  by (auto simp add: configure_closed_form new_calls_def split: sum.splits)

theorem configure_falcon_deployment_manifest_deterministic_witness:
  "\<exists>m. fst (configure_falcon_deployment_manifest sample_dump sample_config
             (fixed_env ''RUNNING'' (Inr ()) (Inr []) (Inr (PDict [])) (Inr ())) True
             initial_state) = Return m
      \<and> fst (configure_falcon_deployment_manifest sample_dump sample_config
             (fixed_env ''ERROR'' (Inl (ApiException (Some 500))) (Inr [Pod ''Running''])
                (Inl (ApiException (Some 404))) (Inr ())) True
             \<lparr>calls = [Sleep 60], logs = [Log INFO ''earlier'']\<rparr>) = Return m
      \<and> new_calls initial_state (snd (configure_falcon_deployment_manifest sample_dump
             sample_config
             (fixed_env ''RUNNING'' (Inr ()) (Inr []) (Inr (PDict [])) (Inr ())) True
             initial_state))
          = [WriteFile ''node_sensor_manifest.yaml'' (sample_dump m)]
      \<and> new_calls \<lparr>calls = [Sleep 60], logs = [Log INFO ''earlier'']\<rparr>
            (snd (configure_falcon_deployment_manifest sample_dump sample_config
             (fixed_env ''ERROR'' (Inl (ApiException (Some 500))) (Inr [Pod ''Running''])
                (Inl (ApiException (Some 404))) (Inr ())) True
             \<lparr>calls = [Sleep 60], logs = [Log INFO ''earlier'']\<rparr>))
          = [WriteFile ''node_sensor_manifest.yaml'' (sample_dump m)]"
  using configure_falcon_deployment_manifest_deterministic
      [where yaml_dump = sample_dump and cfg = sample_config and is_autopilot = True
         and ?ev1.0 = "fixed_env ''RUNNING'' (Inr ()) (Inr []) (Inr (PDict [])) (Inr ())"
         and ?s1.0 = initial_state
         and ?ev2.0 = "fixed_env ''ERROR'' (Inl (ApiException (Some 500))) (Inr [Pod ''Running''])
                (Inl (ApiException (Some 404))) (Inr ())"
         and ?s2.0 = "\<lparr>calls = [Sleep 60], logs = [Log INFO ''earlier'']\<rparr>"
         and ?m1.0 = "rendered_manifest sample_config True"
         and ?m2.0 = "rendered_manifest sample_config True"]
  by (simp add: configure_closed_form fixed_env_def new_calls_def initial_state_def)

text \<open>
  C7. Field placement in the built manifest. In the manifest that
  \<open>configure_falcon_deployment_manifest\<close> returns, for every configuration and either
  autopilot flag: a key \<open>tags\<close> occurs only as \<open>spec.falcon.tags\<close>, and the keys \<open>version\<close>,
  \<open>advanced\<close>, \<open>autoUpdate\<close> and \<open>updatePolicy\<close> occur only below
  \<open>spec.falconNodeSensor.node\<close>. The configured tags, when set, are the value of
  \<open>spec.falcon.tags\<close>; the version pin, the auto-update mode and the update policy, when
  set, are the values of \<open>version\<close>, \<open>advanced.autoUpdate\<close> and \<open>advanced.updatePolicy\<close> of the
  node sub-object. A manifest is returned whenever the environment accepts the write.
\<close>

theorem manifest_field_placement:
  "(fst (configure_falcon_deployment_manifest yaml_dump cfg ev is_autopilot s) = Return m \<longrightarrow>
      (\<forall>p \<in> set (key_paths m). ''tags'' \<in> set p \<longrightarrow> p = [''spec'', ''falcon'', ''tags''])
    \<and> (\<forall>p \<in> set (key_paths m).
          ''version'' \<in> set p \<or> ''advanced'' \<in> set p
            \<or> ''autoUpdate'' \<in> set p \<or> ''updatePolicy'' \<in> set p
          \<longrightarrow> prefix [''spec'', ''falconNodeSensor'', ''node''] p)
    \<and> (FALCON_SENSOR_TAGS cfg \<noteq> [] \<longrightarrow>
          getpath m [''spec'', ''falcon'', ''tags''] = Inr (PStr (FALCON_SENSOR_TAGS cfg)))
    \<and> (FALCON_SENSOR_VERSION cfg \<noteq> [] \<longrightarrow>
          getpath m [''spec'', ''falconNodeSensor'', ''node'', ''version'']
            = Inr (PStr (FALCON_SENSOR_VERSION cfg)))
    \<and> (FALCON_AUTO_UPDATE cfg \<noteq> ''off'' \<longrightarrow>
          getpath m [''spec'', ''falconNodeSensor'', ''node'', ''advanced'', ''autoUpdate'']
            = Inr (PStr (FALCON_AUTO_UPDATE cfg)))
    \<and> (FALCON_UPDATE_POLICY cfg \<noteq> [] \<longrightarrow>
          getpath m [''spec'', ''falconNodeSensor'', ''node'', ''advanced'', ''updatePolicy'']
            = Inr (PStr (FALCON_UPDATE_POLICY cfg))))
   \<and> (write_file ev
         (calls (snd (configure_falcon_deployment_manifest yaml_dump cfg ev is_autopilot s)))
         = Inr ()
      \<longrightarrow> (\<exists>m'. fst (configure_falcon_deployment_manifest yaml_dump cfg ev is_autopilot s)
                 = Return m'))"
proof (intro conjI impI)
  assume "fst (configure_falcon_deployment_manifest yaml_dump cfg ev is_autopilot s) = Return m"
  then have m: "m = rendered_manifest cfg is_autopilot"
    by (auto simp add: configure_closed_form split: sum.splits)
  show "\<forall>p \<in> set (key_paths m). ''tags'' \<in> set p \<longrightarrow> p = [''spec'', ''falcon'', ''tags'']"
    unfolding m by (rule rendered_manifest_tags)
  show "\<forall>p \<in> set (key_paths m).
          ''version'' \<in> set p \<or> ''advanced'' \<in> set p
            \<or> ''autoUpdate'' \<in> set p \<or> ''updatePolicy'' \<in> set p
          \<longrightarrow> prefix [''spec'', ''falconNodeSensor'', ''node''] p"
    unfolding m by (rule rendered_manifest_node_fields)
  show "FALCON_SENSOR_TAGS cfg \<noteq> [] \<Longrightarrow>
          getpath m [''spec'', ''falcon'', ''tags''] = Inr (PStr (FALCON_SENSOR_TAGS cfg))"
    unfolding m using rendered_manifest_values[of cfg is_autopilot] by blast
  show "FALCON_SENSOR_VERSION cfg \<noteq> [] \<Longrightarrow>
          getpath m [''spec'', ''falconNodeSensor'', ''node'', ''version'']
            = Inr (PStr (FALCON_SENSOR_VERSION cfg))"
    unfolding m using rendered_manifest_values[of cfg is_autopilot] by blast
  show "FALCON_AUTO_UPDATE cfg \<noteq> ''off'' \<Longrightarrow>
          getpath m [''spec'', ''falconNodeSensor'', ''node'', ''advanced'', ''autoUpdate'']
            = Inr (PStr (FALCON_AUTO_UPDATE cfg))"
    unfolding m using rendered_manifest_values[of cfg is_autopilot] by blast
  show "FALCON_UPDATE_POLICY cfg \<noteq> [] \<Longrightarrow>
          getpath m [''spec'', ''falconNodeSensor'', ''node'', ''advanced'', ''updatePolicy'']
            = Inr (PStr (FALCON_UPDATE_POLICY cfg))"
    unfolding m using rendered_manifest_values[of cfg is_autopilot] by blast
next
  assume "write_file ev
         (calls (snd (configure_falcon_deployment_manifest yaml_dump cfg ev is_autopilot s)))
         = Inr ()"
  then show "\<exists>m'. fst (configure_falcon_deployment_manifest yaml_dump cfg ev is_autopilot s)
                 = Return m'"
    by (auto simp add: configure_closed_form split: sum.splits)
qed

theorem manifest_field_placement_witness:
  "\<exists>m. fst (configure_falcon_deployment_manifest sample_dump sample_config
             (fixed_env ''RUNNING'' (Inr ()) (Inr []) (Inr (PDict [])) (Inr ())) True
             initial_state) = Return m
      \<and> [''spec'', ''falcon'', ''tags''] \<in> set (key_paths m)
      \<and> [''spec'', ''falconNodeSensor'', ''node'', ''version''] \<in> set (key_paths m)
      \<and> [''spec'', ''falconNodeSensor'', ''node'', ''advanced'', ''autoUpdate'']
           \<in> set (key_paths m)
      \<and> getpath m [''spec'', ''falcon'', ''tags''] = Inr (PStr ''tag1,tag2'')
      \<and> getpath m [''spec'', ''falconNodeSensor'', ''node'', ''version'']
           = Inr (PStr ''7.10.0'')
      \<and> getpath m [''spec'', ''falconNodeSensor'', ''node'', ''advanced'', ''autoUpdate'']
           = Inr (PStr ''normal'')
      \<and> getpath m [''spec'', ''falconNodeSensor'', ''node'', ''advanced'', ''updatePolicy'']
           = Inr (PStr ''policy-1'')"
  using manifest_field_placement
      [where yaml_dump = sample_dump and cfg = sample_config and is_autopilot = True
         and ev = "fixed_env ''RUNNING'' (Inr ()) (Inr []) (Inr (PDict [])) (Inr ())"
         and s = initial_state
         and m = "rendered_manifest sample_config True"]
  by (simp add: configure_closed_form fixed_env_def sample_config_def rendered_manifest_def
      rendered_node_config_def autopilot_config_def)

text \<open>
  C3. An unmanageable cluster ends the handler silently. When the event carries an asset
  name of at least nine segments and the first status fetched is STOPPING, ERROR, DEGRADED
  or STATUS_UNSPECIFIED, \<open>main\<close> returns normally; that one fetch is its only call (no
  further fetch, no sleep, no download, no apply, no create), and its log ends with the
  warning.
\<close>

theorem unmanageable_cluster_silent_abort:
  "decoded = Inr payload \<and> getitem payload ''asset'' = Inr asset
     \<and> getitem asset ''name'' = Inr (PStr asset_name)
     \<and> 8 < length (str_split CHR ''/'' asset_name)
     \<and> get_cluster ev
          (calls s @ [GetCluster (str_split CHR ''/'' asset_name ! 8)
             (str_split CHR ''/'' asset_name ! 6) (str_split CHR ''/'' asset_name ! 4)]) = Inr c
     \<and> status_name c \<in> {''STOPPING'', ''ERROR'', ''DEGRADED'', ''STATUS_UNSPECIFIED''}
   \<longrightarrow> main yaml_dump cfg ev fuel decoded s =
     (Return (),
      \<lparr>calls = calls s @ [GetCluster (str_split CHR ''/'' asset_name ! 8)
             (str_split CHR ''/'' asset_name ! 6) (str_split CHR ''/'' asset_name ! 4)],
       logs = logs s @ [Log INFO (''asset name: '' @ asset_name),
           Log INFO (''cluster_name: '' @ str_split CHR ''/'' asset_name ! 8),
           Log INFO (''project_id: '' @ str_split CHR ''/'' asset_name ! 4),
           Log INFO (''zone: '' @ str_split CHR ''/'' asset_name ! 6),
           Log DEBUG (''Cluster status: '' @ status_name c @ '' ''),
           Log WARNING (''Cluster in unmanageable state: '' @ status_name c
              @ ''... Exiting'')]\<rparr>)"
proof
  let ?segs = "str_split CHR ''/'' asset_name"
  let ?g = "GetCluster (?segs ! 8) (?segs ! 6) (?segs ! 4)"
  assume a: "decoded = Inr payload \<and> getitem payload ''asset'' = Inr asset
     \<and> getitem asset ''name'' = Inr (PStr asset_name)
     \<and> 8 < length ?segs
     \<and> get_cluster ev (calls s @ [?g]) = Inr c
     \<and> status_name c \<in> {''STOPPING'', ''ERROR'', ''DEGRADED'', ''STATUS_UNSPECIFIED''}"
  let ?s1 = "\<lparr>calls = calls s,
        logs = logs s @ [Log INFO (''asset name: '' @ asset_name),
           Log INFO (''cluster_name: '' @ ?segs ! 8),
           Log INFO (''project_id: '' @ ?segs ! 4),
           Log INFO (''zone: '' @ ?segs ! 6)]\<rparr>"
  from a have a1: "decoded = Inr payload" and a2: "getitem payload ''asset'' = Inr asset"
    and a3: "getitem asset ''name'' = Inr (PStr asset_name)" and a4: "8 < length ?segs"
    by simp_all
  have p: "main yaml_dump cfg ev fuel decoded s =
      main_poll_and_deploy yaml_dump cfg ev fuel (?segs ! 8) (?segs ! 6) (?segs ! 4) ?s1"
    by (rule main_parsed[OF a1 a2 a3 a4])
  have g: "get_cluster ev (calls ?s1 @ [?g]) = Inr c" using a by simp
  have w: "main_while ev (?segs ! 8) (?segs ! 6) (?segs ! 4) [] 0 None ?s1 =
      (Return EarlyReturn,
       \<lparr>calls = calls s @ [?g],
        logs = logs ?s1 @ [Log DEBUG (''Cluster status: '' @ status_name c @ '' ''),
           Log WARNING (''Cluster in unmanageable state: '' @ status_name c
              @ ''... Exiting'')]\<rparr>)"
    using main_while_fetch[OF _ _ g, of "[]" 0 None] a by simp
  show "main yaml_dump cfg ev fuel decoded s =
     (Return (),
      \<lparr>calls = calls s @ [?g],
       logs = logs s @ [Log INFO (''asset name: '' @ asset_name),
           Log INFO (''cluster_name: '' @ ?segs ! 8),
           Log INFO (''project_id: '' @ ?segs ! 4),
           Log INFO (''zone: '' @ ?segs ! 6),
           Log DEBUG (''Cluster status: '' @ status_name c @ '' ''),
           Log WARNING (''Cluster in unmanageable state: '' @ status_name c
              @ ''... Exiting'')]\<rparr>)"
    unfolding p main_poll_and_deploy_def try_except_def bind_def w
    by (simp add: ret_def)
qed

theorem unmanageable_cluster_silent_abort_witness:
  "main sample_dump default_config
      (fixed_env ''DEGRADED'' (Inr ()) (Inr []) (Inr (PDict [])) (Inr ())) 3
      (Inr sample_payload) initial_state =
     (Return (),
      \<lparr>calls = [GetCluster ''demo'' ''us-central1-a'' ''proj1''],
       logs = [Log INFO
            ''asset name: //container.googleapis.com/projects/proj1/zones/us-central1-a/clusters/demo'',
           Log INFO ''cluster_name: demo'',
           Log INFO ''project_id: proj1'',
           Log INFO ''zone: us-central1-a'',
           Log DEBUG ''Cluster status: DEGRADED '',
           Log WARNING ''Cluster in unmanageable state: DEGRADED... Exiting'']\<rparr>)"
  using unmanageable_cluster_silent_abort
      [where decoded = "Inr sample_payload" and payload = sample_payload
         and asset = "PDict [(''name'',
           PStr ''//container.googleapis.com/projects/proj1/zones/us-central1-a/clusters/demo'')]"
         and asset_name =
           "''//container.googleapis.com/projects/proj1/zones/us-central1-a/clusters/demo''"
         and ev = "fixed_env ''DEGRADED'' (Inr ()) (Inr []) (Inr (PDict [])) (Inr ())"
         and s = initial_state
         and c = "\<lparr>status_name = ''DEGRADED'', autopilot_enabled = False\<rparr>"
         and yaml_dump = sample_dump and cfg = default_config and fuel = 3]
  by (simp add: sample_payload_def fixed_env_def initial_state_def)



text \<open>
  C9. Identity extraction. For an event whose payload decodes and whose asset name is a
  string: with fewer than nine slash-delimited segments \<open>main\<close> makes no call, logs the
  IndexError and re-raises it; with at least nine, the first call of the run is the
  cluster lookup with segment 8 as cluster name, segment 6 as zone and segment 4 as
  project id (counted from 0), and every cluster lookup of the run has these arguments.
\<close>

theorem identity_extraction:
  "decoded = Inr payload \<and> getitem payload ''asset'' = Inr asset
     \<and> getitem asset ''name'' = Inr (PStr asset_name)
   \<longrightarrow>
     (length (str_split CHR ''/'' asset_name) < 9 \<longrightarrow>
        main yaml_dump cfg ev fuel decoded s =
          (Raise IndexError,
           \<lparr>calls = calls s,
            logs = logs s @
              [LogExn ERROR ''Unexpected error in main function: '' IndexError]\<rparr>))
     \<and> (9 \<le> length (str_split CHR ''/'' asset_name) \<longrightarrow>
        take 1 (new_calls s (snd (main yaml_dump cfg ev fuel decoded s))) =
          [GetCluster (str_split CHR ''/'' asset_name ! 8)
             (str_split CHR ''/'' asset_name ! 6) (str_split CHR ''/'' asset_name ! 4)]
        \<and> (\<forall>c \<in> set (new_calls s (snd (main yaml_dump cfg ev fuel decoded s))).
              is_fetch c \<longrightarrow>
              c = GetCluster (str_split CHR ''/'' asset_name ! 8)
                    (str_split CHR ''/'' asset_name ! 6) (str_split CHR ''/'' asset_name ! 4)))"
proof (intro impI conjI)
  let ?segs = "str_split CHR ''/'' asset_name"
  let ?g = "GetCluster (?segs ! 8) (?segs ! 6) (?segs ! 4)"
  assume a: "decoded = Inr payload \<and> getitem payload ''asset'' = Inr asset
     \<and> getitem asset ''name'' = Inr (PStr asset_name)"
  then have a1: "decoded = Inr payload" and a2: "getitem payload ''asset'' = Inr asset"
    and a3: "getitem asset ''name'' = Inr (PStr asset_name)"
    by simp_all
  {
    assume "length ?segs < 9"
    then show "main yaml_dump cfg ev fuel decoded s =
          (Raise IndexError,
           \<lparr>calls = calls s,
            logs = logs s @
              [LogExn ERROR ''Unexpected error in main function: '' IndexError]\<rparr>)"
      by (rule main_malformed[OF a1 a2 a3])
  }
  assume "9 \<le> length ?segs"
  then have a4: "8 < length ?segs" by simp
  let ?s1 = "\<lparr>calls = calls s,
        logs = logs s @ [Log INFO (''asset name: '' @ asset_name),
           Log INFO (''cluster_name: '' @ ?segs ! 8),
           Log INFO (''project_id: '' @ ?segs ! 4),
           Log INFO (''zone: '' @ ?segs ! 6)]\<rparr>"
  let ?P = "\<lambda>c. is_fetch c \<longrightarrow> c = ?g"
  have p: "main yaml_dump cfg ev fuel decoded s =
      main_poll_and_deploy yaml_dump cfg ev fuel (?segs ! 8) (?segs ! 6) (?segs ! 4) ?s1"
    by (rule main_parsed[OF a1 a2 a3 a4])
  have "first_call ?g ?P
     (main_poll_and_deploy yaml_dump cfg ev fuel (?segs ! 8) (?segs ! 6) (?segs ! 4))"
    by (rule main_poll_and_deploy_first_call) simp_all
  then obtain xs where xs:
    "calls (snd (main_poll_and_deploy yaml_dump cfg ev fuel (?segs ! 8) (?segs ! 6)
        (?segs ! 4) ?s1)) = calls ?s1 @ ?g # xs" "\<forall>c \<in> set xs. ?P c"
    unfolding first_call_def by blast
  have n: "new_calls s (snd (main yaml_dump cfg ev fuel decoded s)) = ?g # xs"
    using xs(1) unfolding p new_calls_def by simp
  show "take 1 (new_calls s (snd (main yaml_dump cfg ev fuel decoded s))) = [?g]"
    unfolding n by simp
  show "\<forall>c \<in> set (new_calls s (snd (main yaml_dump cfg ev fuel decoded s))).
          is_fetch c \<longrightarrow> c = ?g"
    unfolding n using xs(2) by simp
qed

theorem identity_extraction_witness:
  "main sample_dump default_config
      (fixed_env ''RUNNING'' (Inr ()) (Inr [Pod ''Running'']) (Inr (PDict [])) (Inr ())) 3
      (Inr (PDict [(''asset'', PDict [(''name'', PStr ''projects/proj1/zones/z/clusters/demo'')])]))
      initial_state =
     (Raise IndexError,
      \<lparr>calls = [],
       logs = [LogExn ERROR ''Unexpected error in main function: '' IndexError]\<rparr>)
   \<and> take 1 (new_calls initial_state (snd (main sample_dump default_config
       (fixed_env ''RUNNING'' (Inr ()) (Inr [Pod ''Running'']) (Inr (PDict [])) (Inr ())) 3
       (Inr sample_payload) initial_state))) =
     [GetCluster ''demo'' ''us-central1-a'' ''proj1'']"
  using identity_extraction
      [where decoded = "Inr (PDict [(''asset'',
             PDict [(''name'', PStr ''projects/proj1/zones/z/clusters/demo'')])])"
         and payload = "PDict [(''asset'',
             PDict [(''name'', PStr ''projects/proj1/zones/z/clusters/demo'')])]"
         and asset = "PDict [(''name'', PStr ''projects/proj1/zones/z/clusters/demo'')]"
         and asset_name = "''projects/proj1/zones/z/clusters/demo''"
         and ev = "fixed_env ''RUNNING'' (Inr ()) (Inr [Pod ''Running'']) (Inr (PDict []))
             (Inr ())"
         and s = initial_state
         and yaml_dump = sample_dump and cfg = default_config and fuel = 3]
    identity_extraction
      [where decoded = "Inr sample_payload" and payload = sample_payload
         and asset = "PDict [(''name'',
           PStr ''//container.googleapis.com/projects/proj1/zones/us-central1-a/clusters/demo'')]"
         and asset_name =
           "''//container.googleapis.com/projects/proj1/zones/us-central1-a/clusters/demo''"
         and ev = "fixed_env ''RUNNING'' (Inr ()) (Inr [Pod ''Running'']) (Inr (PDict []))
             (Inr ())"
         and s = initial_state
         and yaml_dump = sample_dump and cfg = default_config and fuel = 3]
  by (simp add: sample_payload_def initial_state_def)

text \<open>
  C4. A cluster that reports PROVISIONING on every fetch. \<open>MAX_CLUSTER_STATUS_CHECK_COUNT\<close>
  is 20, but the loop counts from 0 and tests \<open>counter \<le> 20\<close>: it fetches the status 21
  times, each fetch followed by a 60-second sleep, then leaves without raising with the
  last fetched cluster, and \<open>main\<close> goes on to download the operator manifest.
\<close>

theorem provisioning_cluster_is_fetched_21_times:
  "(\<forall>h. \<exists>c. get_cluster ev h = Inr c \<and> status_name c = ''PROVISIONING'')
     \<and> decoded = Inr payload \<and> getitem payload ''asset'' = Inr asset
     \<and> getitem asset ''name'' = Inr (PStr asset_name)
     \<and> 8 < length (str_split CHR ''/'' asset_name)
   \<longrightarrow>
     (\<exists>c s'. main_while ev (str_split CHR ''/'' asset_name ! 8)
            (str_split CHR ''/'' asset_name ! 6) (str_split CHR ''/'' asset_name ! 4)
            [] 0 None s = (Return (Fallthrough (Some c)), s')
          \<and> status_name c = ''PROVISIONING''
          \<and> new_calls s s' =
              concat (replicate 21
                [GetCluster (str_split CHR ''/'' asset_name ! 8)
                   (str_split CHR ''/'' asset_name ! 6) (str_split CHR ''/'' asset_name ! 4),
                 Sleep 60]))
     \<and> filter is_fetch (new_calls s (snd (main yaml_dump cfg ev fuel decoded s))) =
         replicate 21
           (GetCluster (str_split CHR ''/'' asset_name ! 8)
              (str_split CHR ''/'' asset_name ! 6) (str_split CHR ''/'' asset_name ! 4))
     \<and> take 43 (new_calls s (snd (main yaml_dump cfg ev fuel decoded s))) =
         concat (replicate 21
           [GetCluster (str_split CHR ''/'' asset_name ! 8)
              (str_split CHR ''/'' asset_name ! 6) (str_split CHR ''/'' asset_name ! 4),
            Sleep 60])
         @ [UrlRetrieve FALCON_OPERATOR_URL ''falcon_operator.yaml'']"
proof
  let ?segs = "str_split CHR ''/'' asset_name"
  let ?g = "GetCluster (?segs ! 8) (?segs ! 6) (?segs ! 4)"
  let ?u = "UrlRetrieve FALCON_OPERATOR_URL ''falcon_operator.yaml''"
  let ?polls = "concat (replicate 21 [?g, Sleep 60])"
  let ?P = "\<lambda>c. \<not> is_fetch c"
  assume a: "(\<forall>h. \<exists>c. get_cluster ev h = Inr c \<and> status_name c = ''PROVISIONING'')
     \<and> decoded = Inr payload \<and> getitem payload ''asset'' = Inr asset
     \<and> getitem asset ''name'' = Inr (PStr asset_name)
     \<and> 8 < length ?segs"
  then have H: "\<forall>h. \<exists>c. get_cluster ev h = Inr c \<and> status_name c = ''PROVISIONING''"
    and a1: "decoded = Inr payload" and a2: "getitem payload ''asset'' = Inr asset"
    and a3: "getitem asset ''name'' = Inr (PStr asset_name)" and a4: "8 < length ?segs"
    by simp_all
  have k: "Suc MAX_CLUSTER_STATUS_CHECK_COUNT - 0 = 21"
    by (simp add: MAX_CLUSTER_STATUS_CHECK_COUNT_def)
  have loop: "\<exists>c s'. main_while ev (?segs ! 8) (?segs ! 6) (?segs ! 4) [] 0 None s0
        = (Return (Fallthrough (Some c)), s')
      \<and> status_name c = ''PROVISIONING'' \<and> calls s' = calls s0 @ ?polls" for s0
    using main_while_provisioning[OF H _ k, of "[]" "?segs ! 8" "?segs ! 6" "?segs ! 4" None s0]
    by auto
  have first: "\<exists>c s'. main_while ev (?segs ! 8) (?segs ! 6) (?segs ! 4) [] 0 None s
        = (Return (Fallthrough (Some c)), s')
      \<and> status_name c = ''PROVISIONING'' \<and> new_calls s s' = ?polls"
    using loop[of s] by (auto simp add: new_calls_def)
  let ?L = "logs s @ [Log INFO (''asset name: '' @ asset_name),
           Log INFO (''cluster_name: '' @ ?segs ! 8),
           Log INFO (''project_id: '' @ ?segs ! 4),
           Log INFO (''zone: '' @ ?segs ! 6)]"
  let ?s1 = "\<lparr>calls = calls s, logs = ?L\<rparr>"
  let ?h = "\<lambda>e. bind (logging_exn ERROR ''Unexpected error in main function: '' e)
      (\<lambda>_. raise e)"
  obtain c s2 where w:
    "main_while ev (?segs ! 8) (?segs ! 6) (?segs ! 4) [] 0 None ?s1
       = (Return (Fallthrough (Some c)), s2)"
    and s2: "calls s2 = calls s @ ?polls"
    using loop[of ?s1] by auto
  have p: "main yaml_dump cfg ev fuel decoded s =
      main_poll_and_deploy yaml_dump cfg ev fuel (?segs ! 8) (?segs ! 6) (?segs ! 4) ?s1"
    by (rule main_parsed[OF a1 a2 a3 a4])
  have q: "main_poll_and_deploy yaml_dump cfg ev fuel (?segs ! 8) (?segs ! 6) (?segs ! 4) ?s1
      = try_except (main_deploy yaml_dump cfg ev fuel (?segs ! 8) (Some c)) ?h s2"
    unfolding main_poll_and_deploy_def try_except_def bind_def w
    by simp
  have "first_call ?u ?P (try_except (main_deploy yaml_dump cfg ev fuel (?segs ! 8) (Some c)) ?h)"
    by (intro first_call_try_except main_deploy_first_call appends_only_bind
        appends_only_logging_exn appends_only_raise) simp_all
  then obtain xs where xs:
    "calls (snd (try_except (main_deploy yaml_dump cfg ev fuel (?segs ! 8) (Some c)) ?h s2))
       = calls s2 @ ?u # xs" "\<forall>c \<in> set xs. ?P c"
    unfolding first_call_def by blast
  have n: "new_calls s (snd (main yaml_dump cfg ev fuel decoded s)) = ?polls @ ?u # xs"
    using xs(1) s2 unfolding p q new_calls_def by simp
  have f: "filter is_fetch xs = []" using xs(2) by (auto simp add: filter_empty_conv)
  have "filter is_fetch (new_calls s (snd (main yaml_dump cfg ev fuel decoded s)))
      = replicate 21 ?g"
    unfolding n using f by (simp add: filter_fetch_polls)
  moreover have "take 43 (new_calls s (snd (main yaml_dump cfg ev fuel decoded s)))
      = ?polls @ [?u]"
    unfolding n by (simp add: length_polls)
  ultimately show "(\<exists>c s'. main_while ev (?segs ! 8) (?segs ! 6) (?segs ! 4) [] 0 None s
          = (Return (Fallthrough (Some c)), s')
        \<and> status_name c = ''PROVISIONING'' \<and> new_calls s s' = ?polls)
     \<and> filter is_fetch (new_calls s (snd (main yaml_dump cfg ev fuel decoded s)))
         = replicate 21 ?g
     \<and> take 43 (new_calls s (snd (main yaml_dump cfg ev fuel decoded s))) = ?polls @ [?u]"
    using first by blast
qed

theorem provisioning_cluster_is_fetched_21_times_witness:
  "MAX_CLUSTER_STATUS_CHECK_COUNT = 20
   \<and> length (filter is_fetch (new_calls initial_state (snd (main sample_dump default_config
         (fixed_env ''PROVISIONING'' (Inr ()) (Inr [Pod ''Running'']) (Inr (PDict [])) (Inr ()))
         3 (Inr sample_payload) initial_state)))) = 21
   \<and> GetKubeClients \<lparr>status_name = ''PROVISIONING'', autopilot_enabled = False\<rparr>
       \<in> set (new_calls initial_state (snd (main sample_dump default_config
         (fixed_env ''PROVISIONING'' (Inr ()) (Inr [Pod ''Running'']) (Inr (PDict [])) (Inr ()))
         3 (Inr sample_payload) initial_state)))"
  using provisioning_cluster_is_fetched_21_times
      [where decoded = "Inr sample_payload" and payload = sample_payload
         and asset = "PDict [(''name'',
           PStr ''//container.googleapis.com/projects/proj1/zones/us-central1-a/clusters/demo'')]"
         and asset_name =
           "''//container.googleapis.com/projects/proj1/zones/us-central1-a/clusters/demo''"
         and ev = "fixed_env ''PROVISIONING'' (Inr ()) (Inr [Pod ''Running''])
             (Inr (PDict [])) (Inr ())"
         and s = initial_state
         and yaml_dump = sample_dump and cfg = default_config and fuel = 3]
  by (simp add: eval_defs filter_fetch_polls)

text \<open>
  C10. The handler renders the autopilot configuration unconditionally. In every run of
  \<open>main\<close>, whatever the event, the configuration and the answers of the environment (the
  cluster's own autopilot flag included): every manifest passed to a create call has, in
  its node section, backend \<open>bpf\<close>, \<open>gke.autopilot = true\<close>, the cpu and memory requests and
  the NoSchedule toleration; and every file written is the YAML of such a manifest.
\<close>

theorem autopilot_config_always_rendered:
  "(\<forall>api m ns. CreateResource api m ns
        \<in> set (new_calls s (snd (main yaml_dump cfg ev fuel decoded s)))
      \<longrightarrow> has_autopilot_config m)
   \<and> (\<forall>f text. WriteFile f text
        \<in> set (new_calls s (snd (main yaml_dump cfg ev fuel decoded s)))
      \<longrightarrow> (\<exists>m. text = yaml_dump m \<and> has_autopilot_config m))"
proof -
  let ?P = "\<lambda>c. (\<forall>api m ns. c = CreateResource api m ns \<longrightarrow> has_autopilot_config m)
      \<and> (\<forall>f text. c = WriteFile f text \<longrightarrow> (\<exists>m. text = yaml_dump m \<and> has_autopilot_config m))"
  have "appends_only ?P (main yaml_dump cfg ev fuel decoded)"
  proof (rule main_appends)
    fix c
    assume "\<not> is_create c" "\<not> is_write c"
    then show "?P c" by (cases c) simp_all
  next
    fix api
    show "?P (CreateResource api (rendered_manifest cfg True) ''falcon-operator'')"
      by (simp add: rendered_manifest_autopilot)
  next
    show "?P (WriteFile ''node_sensor_manifest.yaml'' (yaml_dump (rendered_manifest cfg True)))"
      using rendered_manifest_autopilot by auto
  qed
  then obtain xs where xs:
    "calls (snd (main yaml_dump cfg ev fuel decoded s)) = calls s @ xs" "\<forall>c \<in> set xs. ?P c"
    unfolding appends_only_def by blast
  have "new_calls s (snd (main yaml_dump cfg ev fuel decoded s)) = xs"
    using xs(1) by (simp add: new_calls_def)
  with xs(2) show ?thesis by blast
qed

theorem autopilot_config_always_rendered_witness:
  "get_cluster
      (fixed_env ''RUNNING'' (Inl (ApiException (Some 404))) (Inr [Pod ''Running''])
         (Inl (ApiException (Some 404))) (Inr ()))
      [GetCluster ''demo'' ''us-central1-a'' ''proj1'']
     = Inr \<lparr>status_name = ''RUNNING'', autopilot_enabled = False\<rparr>
   \<and> CreateResource 7 (rendered_manifest default_config True) ''falcon-operator''
       \<in> set (new_calls initial_state (snd (main sample_dump default_config
           (fixed_env ''RUNNING'' (Inl (ApiException (Some 404))) (Inr [Pod ''Running''])
              (Inl (ApiException (Some 404))) (Inr ())) 3
           (Inr sample_payload) initial_state)))
   \<and> WriteFile ''node_sensor_manifest.yaml'' (sample_dump (rendered_manifest default_config True))
       \<in> set (new_calls initial_state (snd (main sample_dump default_config
           (fixed_env ''RUNNING'' (Inl (ApiException (Some 404))) (Inr [Pod ''Running''])
              (Inl (ApiException (Some 404))) (Inr ())) 3
           (Inr sample_payload) initial_state)))
   \<and> has_autopilot_config (rendered_manifest default_config True)"
  using autopilot_config_always_rendered
      [where s = initial_state and yaml_dump = sample_dump and cfg = default_config
         and ev = "fixed_env ''RUNNING'' (Inl (ApiException (Some 404))) (Inr [Pod ''Running''])
              (Inl (ApiException (Some 404))) (Inr ())"
         and fuel = 3 and decoded = "Inr sample_payload"]
  by (simp add: eval_defs)

end
